theory Spec2Isabelle
  imports Complex_Main "HOL-Library.AList"
begin

section \<open>Python values and the operations the bot applies to them\<close>

text \<open>
  The bot (\<^verbatim>\<open>VastAI_MailBot.py\<close>) works on values parsed from JSON: API responses, the
  snapshot file \<^verbatim>\<open>status.json\<close> and the configuration file \<^verbatim>\<open>config.json\<close>.
  A parsed value is one of Python's \<^verbatim>\<open>None\<close>, \<^verbatim>\<open>bool\<close>, \<^verbatim>\<open>int\<close>, \<^verbatim>\<open>float\<close>,
  \<^verbatim>\<open>str\<close>, \<^verbatim>\<open>list\<close> and \<^verbatim>\<open>dict\<close>. A float is represented by the rational number it
  denotes: the bot only tests floats for truth, equality and order and never computes with
  them (the one product, \<^verbatim>\<open>reliability*100\<close>, only feeds a format), and on the finite
  doubles a JSON document holds these tests agree with the tests on the denoted numbers.
  \<^verbatim>\<open>NaN\<close> and the infinities, which are not JSON, are outside the model.
  A dict is an association list in insertion order; a parsed dict has distinct keys.
\<close>

datatype error = TypeError | ValueError | AttributeError | OverflowError | Unmodelled

datatype json = JNull | JBool bool | JInt int | JFloat rat | JStr string
  | JArr "json list" | JObj "(string \<times> json) list"

type_synonym 'a dict = "(string \<times> 'a) list"

text \<open>An exception that leaves a function is the value \<open>Inl e\<close>; \<open>bindE\<close> sequences two
  computations and stops at the first exception.\<close>

definition bindE :: "error + 'a \<Rightarrow> ('a \<Rightarrow> error + 'b) \<Rightarrow> error + 'b" where
  "bindE m f = (case m of Inl e \<Rightarrow> Inl e | Inr x \<Rightarrow> f x)"

text \<open>\<^verbatim>\<open>bool(v)\<close> and \<^verbatim>\<open>a or b\<close>.\<close>

fun py_truthy :: "json \<Rightarrow> bool" where
  "py_truthy JNull = False"
| "py_truthy (JBool b) = b"
| "py_truthy (JInt n) = (n \<noteq> 0)"
| "py_truthy (JFloat r) = (r \<noteq> 0)"
| "py_truthy (JStr s) = (s \<noteq> [])"
| "py_truthy (JArr xs) = (xs \<noteq> [])"
| "py_truthy (JObj kvs) = (kvs \<noteq> [])"

definition py_or :: "json \<Rightarrow> json \<Rightarrow> json" where
  "py_or a b = (if py_truthy a then a else b)"

text \<open>The number a \<^verbatim>\<open>bool\<close>, \<^verbatim>\<open>int\<close> or \<^verbatim>\<open>float\<close> denotes.\<close>

fun num_of :: "json \<Rightarrow> rat option" where
  "num_of (JBool b) = Some (if b then 1 else 0)"
| "num_of (JInt n) = Some (of_int n)"
| "num_of (JFloat r) = Some r"
| "num_of _ = None"

text \<open>\<^verbatim>\<open>a == b\<close>: numbers (booleans among them) compare by value, strings and \<^verbatim>\<open>None\<close>
  with themselves, lists element by element, dicts key by key; values of different kinds
  are unequal.\<close>

fun py_eq :: "json \<Rightarrow> json \<Rightarrow> bool" where
  "py_eq (JArr xs) (JArr ys) = list_all2 py_eq xs ys"
| "py_eq (JObj xs) (JObj ys) =
     (length xs = length ys \<and>
      list_all (\<lambda>(k, v). case map_of ys k of None \<Rightarrow> False | Some w \<Rightarrow> py_eq v w) xs)"
| "py_eq (JStr s) (JStr t) = (s = t)"
| "py_eq JNull JNull = True"
| "py_eq a b = (case (num_of a, num_of b) of (Some x, Some y) \<Rightarrow> x = y | _ \<Rightarrow> False)"

definition py_ne :: "json \<Rightarrow> json \<Rightarrow> bool" where
  "py_ne a b = (\<not> py_eq a b)"

text \<open>\<^verbatim>\<open>a < b\<close>: defined between two numbers, two strings (by code point, which is the
  order of the UTF-8 bytes) and two lists; a \<^verbatim>\<open>TypeError\<close> otherwise.\<close>

fun str_lt :: "string \<Rightarrow> string \<Rightarrow> bool" where
  "str_lt [] [] = False"
| "str_lt [] (y # ys) = True"
| "str_lt (x # xs) [] = False"
| "str_lt (x # xs) (y # ys) = (if x = y then str_lt xs ys else (of_char x :: nat) < of_char y)"

fun py_lt :: "json \<Rightarrow> json \<Rightarrow> error + bool"
  and py_lt_list :: "json list \<Rightarrow> json list \<Rightarrow> error + bool" where
  "py_lt (JStr s) (JStr t) = Inr (str_lt s t)"
| "py_lt (JArr xs) (JArr ys) = py_lt_list xs ys"
| "py_lt a b =
     (case (num_of a, num_of b) of (Some x, Some y) \<Rightarrow> Inr (x < y) | _ \<Rightarrow> Inl TypeError)"
| "py_lt_list [] [] = Inr False"
| "py_lt_list [] (y # ys) = Inr True"
| "py_lt_list (x # xs) [] = Inr False"
| "py_lt_list (x # xs) (y # ys) = (if py_eq x y then py_lt_list xs ys else py_lt x y)"

definition py_gt :: "json \<Rightarrow> json \<Rightarrow> error + bool" where
  "py_gt a b = py_lt b a"

text \<open>\<^verbatim>\<open>d.get(k, default)\<close> on a dict, and on any value (an \<^verbatim>\<open>AttributeError\<close> when the
  value is not a dict).\<close>

definition dget :: "'a dict \<Rightarrow> string \<Rightarrow> 'a \<Rightarrow> 'a" where
  "dget d k dflt = (case map_of d k of None \<Rightarrow> dflt | Some v \<Rightarrow> v)"

definition py_get :: "json \<Rightarrow> string \<Rightarrow> json \<Rightarrow> error + json" where
  "py_get v k dflt = (case v of JObj d \<Rightarrow> Inr (dget d k dflt) | _ \<Rightarrow> Inl AttributeError)"

text \<open>\<^verbatim>\<open>for x in v\<close>: the elements of a list, the keys of a dict, the characters of a
  string (here one per byte; the bot fails on the first of them whatever their number);
  a \<^verbatim>\<open>TypeError\<close> for a value that is not iterable.\<close>

definition py_iter :: "json \<Rightarrow> error + json list" where
  "py_iter v =
     (case v of
        JArr xs \<Rightarrow> Inr xs
      | JObj d \<Rightarrow> Inr (map (\<lambda>(k, _). JStr k) d)
      | JStr s \<Rightarrow> Inr (map (\<lambda>c. JStr [c]) s)
      | _ \<Rightarrow> Inl TypeError)"

text \<open>\<^verbatim>\<open>v.count(c)\<close> for a one-character string \<open>c\<close>: \<^verbatim>\<open>str\<close> and \<^verbatim>\<open>list\<close> have the
  method.\<close>

definition py_count :: "json \<Rightarrow> char \<Rightarrow> error + int" where
  "py_count v c =
     (case v of
        JStr s \<Rightarrow> Inr (int (count_list s c))
      | JArr xs \<Rightarrow> Inr (int (length (filter (\<lambda>x. py_eq x (JStr [c])) xs)))
      | _ \<Rightarrow> Inl AttributeError)"

text \<open>\<^verbatim>\<open>v.replace(' ', '')\<close>: only \<^verbatim>\<open>str\<close> has the method.\<close>

definition py_replace_spaces :: "json \<Rightarrow> error + string" where
  "py_replace_spaces v =
     (case v of JStr s \<Rightarrow> Inr (filter (\<lambda>c. c \<noteq> CHR '' '') s) | _ \<Rightarrow> Inl AttributeError)"

text \<open>A fixed-point format \<^verbatim>\<open>{v:.2f}\<close> or \<^verbatim>\<open>{v:.4f}\<close> accepts numbers only: a string gives
  a \<^verbatim>\<open>ValueError\<close>, any other value a \<^verbatim>\<open>TypeError\<close>, and an \<^verbatim>\<open>int\<close> is converted to
  a double first, an \<^verbatim>\<open>OverflowError\<close> when it rounds beyond the largest double. The
  rendered digits are not modelled: a message keeps the value that was formatted.
  \<^verbatim>\<open>{v*100:.2f}\<close> multiplies first: exactly for an \<^verbatim>\<open>int\<close>, without exception for a
  \<^verbatim>\<open>float\<close>, by repetition for a string or a list, and not at all for a dict.\<close>

definition float_overflow :: "int \<Rightarrow> bool" where
  "float_overflow n = (2 ^ 1024 - 2 ^ 970 \<le> \<bar>n\<bar>)"

definition fmt_f :: "json \<Rightarrow> error + json" where
  "fmt_f v =
     (case v of
        JBool _ \<Rightarrow> Inr v
      | JInt n \<Rightarrow> if float_overflow n then Inl OverflowError else Inr v
      | JFloat _ \<Rightarrow> Inr v
      | JStr _ \<Rightarrow> Inl ValueError
      | _ \<Rightarrow> Inl TypeError)"

definition fmt_f_times_100 :: "json \<Rightarrow> error + json" where
  "fmt_f_times_100 v =
     bindE (case v of JInt n \<Rightarrow> fmt_f (JInt (n * 100)) | _ \<Rightarrow> fmt_f v) (\<lambda>_. Inr v)"

subsection \<open>\<^verbatim>\<open>str\<close> and \<^verbatim>\<open>int\<close> on machine identifiers\<close>

definition digit_char :: "nat \<Rightarrow> char" where
  "digit_char d = ''0123456789'' ! d"

function str_of_nat :: "nat \<Rightarrow> string" where
  "str_of_nat n =
     (if n < 10 then [digit_char n] else str_of_nat (n div 10) @ [digit_char (n mod 10)])"
  by pat_completeness auto
termination
  by (relation "measure id") auto

declare str_of_nat.simps [simp del]

definition str_of_int :: "int \<Rightarrow> string" where
  "str_of_int i = (if i < 0 then CHR ''-'' # str_of_nat (nat (- i)) else str_of_nat (nat i))"

text \<open>\<^verbatim>\<open>str(v)\<close> for the values whose text is determined here; the text of a float
  (shortest round-trip digits) and of a container is not modelled.\<close>

definition py_str :: "json \<Rightarrow> error + string" where
  "py_str v =
     (case v of
        JNull \<Rightarrow> Inr ''None''
      | JBool b \<Rightarrow> Inr (if b then ''True'' else ''False'')
      | JInt n \<Rightarrow> Inr (str_of_int n)
      | JStr s \<Rightarrow> Inr s
      | _ \<Rightarrow> Inl Unmodelled)"

text \<open>\<^verbatim>\<open>int(s)\<close> on a string: surrounding whitespace is dropped, a sign may follow, then
  decimal digits in groups separated by single underscores; anything else is a
  \<^verbatim>\<open>ValueError\<close>. Python also accepts the decimal digits and the whitespace of other
  scripts, so a string with a character outside ASCII is not modelled.\<close>

definition is_digit :: "char \<Rightarrow> bool" where
  "is_digit c = (c \<in> set ''0123456789'')"

definition digit_val :: "char \<Rightarrow> int" where
  "digit_val c = int (of_char c) - 48"

definition is_space :: "char \<Rightarrow> bool" where
  "is_space c = (c \<in> set [CHR 0x09, CHR 0x0A, CHR 0x0B, CHR 0x0C, CHR 0x0D,
                           CHR 0x1C, CHR 0x1D, CHR 0x1E, CHR 0x1F, CHR 0x20])"

definition is_ascii :: "char \<Rightarrow> bool" where
  "is_ascii c = ((of_char c :: nat) < 128)"

definition strip :: "string \<Rightarrow> string" where
  "strip s = rev (dropWhile is_space (rev (dropWhile is_space s)))"

fun digits_ok :: "string \<Rightarrow> bool" where
  "digits_ok [] = False"
| "digits_ok [c] = is_digit c"
| "digits_ok (c # d # r) =
     (is_digit c \<and> (if d = CHR ''_'' then digits_ok r else digits_ok (d # r)))"

definition dec_val :: "string \<Rightarrow> int" where
  "dec_val s = foldl (\<lambda>a c. 10 * a + digit_val c) 0 (filter is_digit s)"

definition py_int :: "string \<Rightarrow> error + int" where
  "py_int s =
     (if \<not> list_all is_ascii s then Inl Unmodelled
      else
        let t = strip s;
            neg = (t \<noteq> [] \<and> hd t = CHR ''-'');
            body = (if t \<noteq> [] \<and> (hd t = CHR ''-'' \<or> hd t = CHR ''+'') then tl t else t)
        in if digits_ok body then Inr (if neg then - dec_val body else dec_val body)
           else Inl ValueError)"

section \<open>Messages\<close>

text \<open>
  The bot builds its texts with f-strings. A line is kept here as the values that were
  interpolated, not as rendered characters: the icon, the machine, and the values in the
  order of the f-string. Whether a line contains one of the icons \<^verbatim>\<open>NEW RENTAL\<close>,
  \<^verbatim>\<open>RENTAL ENDED\<close> or \<^verbatim>\<open>WARNING\<close> is read off its first component, which is where the
  f-string puts the icon (an icon inside an interpolated API value is not considered).
  \<^verbatim>\<open>format_for_email\<close>, which replaces each icon by a word, leaves this structure
  unchanged.
\<close>

datatype icon = Rocket | Landing

datatype change_line =
    RentalChange icon string bool json json json string
  | GpuPriceChange string json json
  | StoragePriceChange string json json
  | MinGpuChange string json json
  | MinBidChange string json json
  | NumReportsChange string json json
  | Newline

text \<open>The line of one machine in the summary: identifier, rented or free, rented GPUs
  and GPU count, minimal GPU count, the three prices (absent for a machine that is not
  listed), reliability, and the resident and running rentals when there are any.\<close>

datatype server_line =
  ServerLine string bool json json json "(json \<times> json \<times> json) option" json
    "json option" "json option"

datatype subject = StatusUpdate string | NewRental string | RentalEnded string
  | PriceChange string

text \<open>The body: account name, balance, machine earnings, change lines, machine lines.\<close>

datatype message = Message string json json "change_line list" "server_line list"

fun has_rocket :: "change_line \<Rightarrow> bool" where
  "has_rocket (RentalChange Rocket _ _ _ _ _ _) = True"
| "has_rocket _ = False"

fun has_landing :: "change_line \<Rightarrow> bool" where
  "has_landing (RentalChange Landing _ _ _ _ _ _) = True"
| "has_landing _ = False"

fun has_warning :: "change_line \<Rightarrow> bool" where
  "has_warning (RentalChange _ _ _ _ _ _ _) = False"
| "has_warning Newline = False"
| "has_warning _ = True"

section \<open>One machine: observation, comparison, snapshot entry\<close>

text \<open>The local variables \<^verbatim>\<open>process_account\<close> computes for one machine (lines 202 to
  235 of the source).\<close>

record obs =
  rented :: bool
  rented_gpus :: json
  num_gpus :: json
  listed_gpu_cost :: json
  listed_storage_cost :: json
  min_bid_price :: json
  listed_min_gpu_count :: json
  earn_hour :: json
  earn_day :: json
  reliability :: json
  num_reports :: json
  gpu_occupancy :: json
  server_line :: server_line

definition observe_server :: "json dict \<Rightarrow> string \<Rightarrow> error + obs" where
  "observe_server server server_id =
     (let listed = py_or (dget server ''listed'' (JInt 0)) (JBool False);
          running = dget server ''current_rentals_running'' (JInt 0);
          resident = dget server ''current_rentals_resident'' (JInt 0)
      in bindE (py_gt running (JInt 0)) (\<lambda>rented.
         let reliability = py_or (dget server ''reliability2'' (JInt 0)) (JFloat 0);
             num_gpus = dget server ''num_gpus'' (JInt 0);
             earn_hour = py_or (dget server ''earn_hour'' (JInt 0)) (JFloat 0);
             earn_day = py_or (dget server ''earn_day'' (JInt 0)) (JFloat 0);
             gpu_occupancy = py_or (dget server ''gpu_occupancy'' (JStr [])) (JStr []);
             num_reports = py_or (dget server ''num_reports'' (JStr [])) (JInt 0);
             min_bid_price = py_or (dget server ''min_bid_price'' (JInt 0)) (JFloat 0)
         in bindE
              (if py_truthy listed then
                 bindE (py_count gpu_occupancy CHR ''D'') (\<lambda>d.
                 bindE (py_count gpu_occupancy CHR ''I'') (\<lambda>i.
                 let listed_gpu_cost = py_or (dget server ''listed_gpu_cost'' (JInt 0)) (JFloat 0);
                     listed_storage_cost =
                       py_or (dget server ''listed_storage_cost'' (JInt 0)) (JFloat 0);
                     listed_min_gpu_count =
                       py_or (dget server ''listed_min_gpu_count'' (JInt 0)) (JInt 0)
                 in bindE (fmt_f listed_gpu_cost) (\<lambda>_.
                    bindE (fmt_f min_bid_price) (\<lambda>_.
                    bindE (fmt_f listed_storage_cost) (\<lambda>_.
                    Inr (JInt (d + i), listed_gpu_cost, listed_storage_cost,
                         listed_min_gpu_count,
                         Some (listed_gpu_cost, min_bid_price, listed_storage_cost)))))))
               else Inr (running, JFloat 0, JFloat 0, JInt 0, None))
              (\<lambda>(rented_gpus, listed_gpu_cost, listed_storage_cost, listed_min_gpu_count,
                  price_info).
                 bindE (fmt_f_times_100 reliability) (\<lambda>_.
                 bindE (py_gt resident (JInt 0)) (\<lambda>resident_pos.
                 Inr \<lparr>rented = rented, rented_gpus = rented_gpus, num_gpus = num_gpus,
                      listed_gpu_cost = listed_gpu_cost,
                      listed_storage_cost = listed_storage_cost,
                      min_bid_price = min_bid_price,
                      listed_min_gpu_count = listed_min_gpu_count,
                      earn_hour = earn_hour, earn_day = earn_day,
                      reliability = reliability, num_reports = num_reports,
                      gpu_occupancy = gpu_occupancy,
                      server_line =
                        ServerLine server_id rented rented_gpus num_gpus listed_min_gpu_count
                          price_info reliability
                          (if resident_pos then Some resident else None)
                          (if rented then Some running else None)\<rparr>)))))"

text \<open>The dict stored under the machine's identifier (lines 288 to 300).\<close>

definition snapshot_entry :: "obs \<Rightarrow> json" where
  "snapshot_entry ob =
     JObj [(''rented'', JBool (rented ob)),
           (''rented_gpus'', rented_gpus ob),
           (''listed_gpu_cost'', listed_gpu_cost ob),
           (''listed_storage_cost'', listed_storage_cost ob),
           (''min_bid_price'', min_bid_price ob),
           (''listed_min_gpu_count'', listed_min_gpu_count ob),
           (''earn_hour'', earn_hour ob),
           (''earn_day'', earn_day ob),
           (''reliability'', reliability ob),
           (''num_reports'', num_reports ob),
           (''gpu_occupancy'', gpu_occupancy ob)]"

text \<open>The comparison with the prior entry (lines 239 to 283). The pair is
  \<^verbatim>\<open>changes_detected\<close> and \<^verbatim>\<open>changes_lines\<close>; \<open>note_change\<close> is the two statements every
  branch consists of.\<close>

definition note_change :: "change_line \<Rightarrow> bool \<times> change_line list \<Rightarrow> bool \<times> change_line list" where
  "note_change line acc = (True, snd acc @ [line])"

definition diff_server ::
  "json \<Rightarrow> string \<Rightarrow> obs \<Rightarrow> bool \<times> change_line list \<Rightarrow> error + bool \<times> change_line list" where
  "diff_server old_data server_id ob acc0 =
     (case old_data of
        JObj od \<Rightarrow>
          let p_listed_gpu_cost = py_or (dget od ''listed_gpu_cost'' JNull) (JFloat 0);
              p_listed_storage_cost = py_or (dget od ''listed_storage_cost'' JNull) (JFloat 0);
              p_rented = py_or (dget od ''rented'' JNull) (JBool False);
              p_rented_gpus = py_or (dget od ''rented_gpus'' JNull) (JInt 0);
              p_min_bid_price = py_or (dget od ''min_bid_price'' JNull) (JFloat 0);
              p_listed_min_gpu_count = py_or (dget od ''listed_min_gpu_count'' JNull) (JFloat 0);
              p_num_reports = py_or (dget od ''num_reports'' JNull) (JInt 0)
          in
          bindE
            (if py_ne p_rented (JBool (rented ob)) \<or> py_ne p_rented_gpus (rented_gpus ob) then
               bindE (py_lt p_rented_gpus (rented_gpus ob)) (\<lambda>more.
               bindE (py_replace_spaces (gpu_occupancy ob)) (\<lambda>occ.
               Inr (note_change
                      (RentalChange (if more then Rocket else Landing) server_id (rented ob)
                         p_rented_gpus (rented_gpus ob) (num_gpus ob) occ) acc0)))
             else Inr acc0) (\<lambda>acc1.
          bindE
            (if py_ne p_listed_gpu_cost (listed_gpu_cost ob) then
               bindE (fmt_f p_listed_gpu_cost) (\<lambda>_.
               bindE (fmt_f (listed_gpu_cost ob)) (\<lambda>_.
               Inr (note_change
                      (GpuPriceChange server_id p_listed_gpu_cost (listed_gpu_cost ob)) acc1)))
             else Inr acc1) (\<lambda>acc2.
          bindE
            (if py_ne p_listed_storage_cost (listed_storage_cost ob) then
               bindE (fmt_f p_listed_storage_cost) (\<lambda>_.
               bindE (fmt_f (listed_storage_cost ob)) (\<lambda>_.
               Inr (note_change
                      (StoragePriceChange server_id p_listed_storage_cost
                         (listed_storage_cost ob)) acc2)))
             else Inr acc2) (\<lambda>acc3.
          let acc4 =
                (if py_ne p_listed_min_gpu_count (listed_min_gpu_count ob) then
                   note_change
                     (MinGpuChange server_id p_listed_min_gpu_count (listed_min_gpu_count ob))
                     acc3
                 else acc3);
              acc5 =
                (if py_ne p_min_bid_price (min_bid_price ob) then
                   note_change (MinBidChange server_id p_min_bid_price (min_bid_price ob)) acc4
                 else acc4);
              acc6 =
                (if py_ne p_num_reports (num_reports ob) then
                   note_change (NumReportsChange server_id p_num_reports (num_reports ob)) acc5
                 else acc5)
          in Inr acc6)))
      | _ \<Rightarrow> Inl AttributeError)"

text \<open>The state of the loop over the machines of one account: the bot's
  \<^verbatim>\<open>self.previous_status\<close> and the three locals the loop updates.\<close>

record frame =
  self_previous_status :: "json dict"
  changes_detected :: bool
  changes_lines :: "change_line list"
  account_lines :: "server_line list"

text \<open>\<^verbatim>\<open>self.previous_status.get(server_id)\<close> followed by the test
  \<^verbatim>\<open>old_data is not None\<close>: a missing key and a stored \<^verbatim>\<open>null\<close> are both no entry.\<close>

definition prior_entry :: "json dict \<Rightarrow> string \<Rightarrow> json option" where
  "prior_entry ps server_id =
     (case dget ps server_id JNull of JNull \<Rightarrow> None | old_data \<Rightarrow> Some old_data)"

text \<open>The test that skips a machine (line 199): \<^verbatim>\<open>int(server_id)\<close> is evaluated only
  when the account does not monitor every machine.\<close>

definition skip_server :: "bool \<Rightarrow> int list \<Rightarrow> string \<Rightarrow> error + bool" where
  "skip_server all_server server_ids server_id =
     (if all_server then Inr False
      else bindE (py_int server_id) (\<lambda>n. Inr (n \<notin> set server_ids)))"

text \<open>The branch on the prior entry (lines 237 to 286): compare with it, or flag a
  machine that has none.\<close>

definition compare_prior ::
  "json dict \<Rightarrow> string \<Rightarrow> obs \<Rightarrow> bool \<times> change_line list \<Rightarrow> error + bool \<times> change_line list" where
  "compare_prior ps server_id ob acc =
     (case prior_entry ps server_id of
        Some old_data \<Rightarrow> diff_server old_data server_id ob acc
      | None \<Rightarrow> Inr (True, snd acc))"

text \<open>The body of the loop \<^verbatim>\<open>for server in servers\<close> (lines 198 to 301).\<close>

definition process_server :: "bool \<Rightarrow> int list \<Rightarrow> frame \<Rightarrow> json \<Rightarrow> error + frame" where
  "process_server all_server server_ids f server =
     (case server of
        JObj sv \<Rightarrow>
          bindE (py_str (dget sv ''id'' JNull)) (\<lambda>server_id.
          bindE (skip_server all_server server_ids server_id) (\<lambda>skip.
          if skip then Inr f
          else
            bindE (observe_server sv server_id) (\<lambda>ob.
            bindE (compare_prior (self_previous_status f) server_id ob
                     (changes_detected f, changes_lines f)) (\<lambda>acc.
            Inr \<lparr>self_previous_status =
                   AList.update server_id (snapshot_entry ob) (self_previous_status f),
                 changes_detected = fst acc,
                 changes_lines = snd acc,
                 account_lines = account_lines f @ [server_line ob]\<rparr>))))
      | _ \<Rightarrow> Inl AttributeError)"

fun process_servers :: "bool \<Rightarrow> int list \<Rightarrow> frame \<Rightarrow> json list \<Rightarrow> error + frame" where
  "process_servers all_server server_ids f [] = Inr f"
| "process_servers all_server server_ids f (server # servers) =
     bindE (process_server all_server server_ids f server)
       (\<lambda>f'. process_servers all_server server_ids f' servers)"

section \<open>The bot and its environment\<close>

text \<open>
  The environment variables read at import time are parameters. An account of
  \<^verbatim>\<open>config.json\<close> has the three entries \<^verbatim>\<open>process_account\<close> reads: the key, the optional
  list of recipients, and the list of machine identifiers (integers).
\<close>

record settings =
  CHECK_INTERVAL :: int
  VAST_URL :: string
  EMAIL_TO :: "string option"

definition STATUS_FILE :: string where
  "STATUS_FILE = ''status.json''"

definition CONFIG_FILE :: string where
  "CONFIG_FILE = ''config.json''"

text \<open>The three timing constants of the source. \<^verbatim>\<open>API_TIMEOUT\<close> bounds a request, whose
  expiry is one of the exceptions \<^verbatim>\<open>call_vast_api\<close> catches; \<^verbatim>\<open>RETRY_TIMEOUT\<close> and
  \<^verbatim>\<open>REQUEST_DELAY\<close> are read by no function of the source, and by none here.\<close>

definition RETRY_TIMEOUT :: int where
  "RETRY_TIMEOUT = 15"

definition REQUEST_DELAY :: int where
  "REQUEST_DELAY = 2"

definition API_TIMEOUT :: int where
  "API_TIMEOUT = 10"

record account =
  api_key :: string
  notify :: "string list option"
  machine_ids :: "int list"

text \<open>What the outside answers. A request ends in a response whose body parsed, or in one
  of the three exception classes \<^verbatim>\<open>call_vast_api\<close> catches (an HTTP error status and a
  connection failure are \<^verbatim>\<open>ClientError\<close>, a timeout is among the others). An SMTP
  session delivers, or raises somewhere. A file is missing, unparsable, or holds a dict.
  Writing a file succeeds, fails before the file is truncated, or fails after.\<close>

datatype http_result = Response json | ClientError | JSONDecodeError | OtherError

datatype smtp_result = Delivered | SmtpFailed

datatype 'a file_state = Missing | Invalid | Content 'a

datatype write_result = Written | OpenFailed | WriteFailed

text \<open>\<^verbatim>\<open>wait_for(shutdown_event.wait(), timeout)\<close> returns because the event is set, or
  raises \<^verbatim>\<open>TimeoutError\<close>; in the second case the signal handler may still have set the
  event before the loop tests it again.\<close>

datatype wait_result = Woken | TimedOut | TimedOutAndSet

text \<open>The effects of a run, in order.\<close>

datatype event =
    LoadJson string
  | SaveJson string "json dict" write_result
  | HttpGet string string
  | SendMail subject message "string list" smtp_result
  | WaitFor int wait_result

record state =
  previous_status :: "json dict"
  vast_accounts :: "account dict"
  shutdown_event :: bool
  status_file :: "json dict file_state"
  config_file :: "account dict file_state"
  trace :: "event list"

definition load_json :: "'a dict file_state \<Rightarrow> 'a dict" where
  "load_json f = (case f of Content d \<Rightarrow> d | Missing \<Rightarrow> [] | Invalid \<Rightarrow> [])"

definition save_json :: "write_result \<Rightarrow> 'a dict file_state \<Rightarrow> 'a dict \<Rightarrow> 'a dict file_state" where
  "save_json w f data =
     (case w of Written \<Rightarrow> Content data | OpenFailed \<Rightarrow> f | WriteFailed \<Rightarrow> Invalid)"

definition default_recipients :: "settings \<Rightarrow> string list" where
  "default_recipients c =
     (case EMAIL_TO c of None \<Rightarrow> [] | Some a \<Rightarrow> if a \<noteq> [] then [a] else [])"

text \<open>\<^verbatim>\<open>send_email\<close>: without recipients nothing is sent; otherwise one SMTP session, whose
  exceptions are caught.\<close>

definition send_email ::
  "settings \<Rightarrow> smtp_result \<Rightarrow> subject \<Rightarrow> message \<Rightarrow> string list option \<Rightarrow> state \<Rightarrow> state" where
  "send_email c smtp subj msg recipients s =
     (let recipients = (case recipients of None \<Rightarrow> default_recipients c | Some r \<Rightarrow> r)
      in if recipients = [] then s
         else s\<lparr>trace := trace s @ [SendMail subj msg recipients smtp]\<rparr>)"

text \<open>\<^verbatim>\<open>call_vast_api\<close>: one request; the parsed body, or the empty dict after any of the
  caught exceptions.\<close>

definition api_result :: "http_result \<Rightarrow> json" where
  "api_result r = (case r of Response body \<Rightarrow> body | _ \<Rightarrow> JObj [])"

definition call_vast_api ::
  "(string \<Rightarrow> string \<Rightarrow> http_result) \<Rightarrow> string \<Rightarrow> string \<Rightarrow> state \<Rightarrow> json \<times> state" where
  "call_vast_api api url key s =
     (api_result (api url key), s\<lparr>trace := trace s @ [HttpGet url key]\<rparr>)"

definition get_server_status ::
  "settings \<Rightarrow> (string \<Rightarrow> string \<Rightarrow> http_result) \<Rightarrow> string \<Rightarrow> state \<Rightarrow> error + json \<times> state" where
  "get_server_status c api key s =
     (let (data, s') = call_vast_api api (VAST_URL c @ ''/machines'') key s
      in bindE (py_get data ''machines'' (JArr [])) (\<lambda>machines. Inr (machines, s')))"

definition get_current_user ::
  "settings \<Rightarrow> (string \<Rightarrow> string \<Rightarrow> http_result) \<Rightarrow> string \<Rightarrow> state \<Rightarrow> json \<times> state" where
  "get_current_user c api key s = call_vast_api api (VAST_URL c @ ''/users/current'') key s"

definition get_user_earnings ::
  "settings \<Rightarrow> (string \<Rightarrow> string \<Rightarrow> http_result) \<Rightarrow> string \<Rightarrow> state \<Rightarrow> json \<times> state" where
  "get_user_earnings c api key s = call_vast_api api (VAST_URL c @ ''/user/earnings'') key s"

text \<open>The subject of the summary (lines 313 to 320).\<close>

definition choose_subject :: "string \<Rightarrow> bool \<Rightarrow> bool \<Rightarrow> change_line list \<Rightarrow> subject" where
  "choose_subject account_name first_run changes lines =
     (if changes \<and> \<not> first_run then
        if list_ex has_rocket lines then NewRental account_name
        else if list_ex has_landing lines then RentalEnded account_name
        else if list_ex has_warning lines then PriceChange account_name
        else StatusUpdate account_name
      else StatusUpdate account_name)"

text \<open>The three requests of \<^verbatim>\<open>process_account\<close> and what it reads from the answers
  (lines 187 to 193).\<close>

definition fetch_account ::
  "settings \<Rightarrow> (string \<Rightarrow> string \<Rightarrow> http_result) \<Rightarrow> string \<Rightarrow> state
     \<Rightarrow> error + json \<times> json \<times> json \<times> state" where
  "fetch_account c api key s =
     (let (user, s1) = get_current_user c api key s
      in bindE (py_get user ''balance'' (JInt 0)) (\<lambda>balance.
         let (earnings, s2) = get_user_earnings c api key s1
         in bindE (py_get earnings ''machine_earnings'' (JInt 0)) (\<lambda>e.
            let machine_earnings = py_or e (JFloat 0)
            in bindE (get_server_status c api key s2) (\<lambda>(servers, s3).
               Inr (balance, machine_earnings, servers, s3)))))"

text \<open>The locals the loop over the machines starts from (lines 177 to 181), the
  recipients (line 184), and the end of \<^verbatim>\<open>process_account\<close> (lines 303 to 324): a blank
  line closes the change lines, and the summary is mailed on a first run or a change,
  provided a machine was listed in it.\<close>

definition initial_frame :: "json dict \<Rightarrow> frame" where
  "initial_frame ps =
     \<lparr>self_previous_status = ps, changes_detected = False, changes_lines = [],
      account_lines = []\<rparr>"

definition notify_emails :: "settings \<Rightarrow> account \<Rightarrow> string list" where
  "notify_emails c account_data =
     (case notify account_data of Some r \<Rightarrow> r | None \<Rightarrow> default_recipients c)"

definition final_lines :: "frame \<Rightarrow> change_line list" where
  "final_lines f =
     (if changes_lines f \<noteq> [] then changes_lines f @ [Newline] else changes_lines f)"

definition report_account ::
  "settings \<Rightarrow> smtp_result \<Rightarrow> string \<Rightarrow> account \<Rightarrow> bool \<Rightarrow> json \<Rightarrow> json \<Rightarrow> frame \<Rightarrow> state
     \<Rightarrow> error + state" where
  "report_account c smtp account_name account_data first_run balance machine_earnings f s =
     (if (first_run \<or> changes_detected f) \<and> account_lines f \<noteq> [] then
        bindE (fmt_f balance) (\<lambda>_.
        bindE (fmt_f machine_earnings) (\<lambda>_.
        Inr (send_email c smtp
               (choose_subject account_name first_run (changes_detected f) (final_lines f))
               (Message account_name balance machine_earnings (final_lines f)
                  (account_lines f))
               (Some (notify_emails c account_data)) s)))
      else Inr s)"

definition process_account ::
  "settings \<Rightarrow> (string \<Rightarrow> string \<Rightarrow> http_result) \<Rightarrow> smtp_result \<Rightarrow> string \<Rightarrow> account \<Rightarrow> state
     \<Rightarrow> error + state" where
  "process_account c api smtp account_name account_data s =
     (let first_run = (previous_status s = []);
          server_ids = machine_ids account_data
      in bindE (fetch_account c api (api_key account_data) s)
           (\<lambda>(balance, machine_earnings, servers, s3).
         let all_server = (- 1 \<in> set server_ids)
         in bindE (py_iter servers) (\<lambda>server_list.
            bindE (process_servers all_server server_ids
                     (initial_frame (previous_status s3)) server_list) (\<lambda>f.
            report_account c smtp account_name account_data first_run balance
              machine_earnings f (s3\<lparr>previous_status := self_previous_status f\<rparr>)))))"

section \<open>The poll loop\<close>

text \<open>What the environment does during one round of the loop: the answer to each request
  of the n-th account, the outcome of the n-th account's SMTP session, the outcome of
  writing \<^verbatim>\<open>status.json\<close>, whether the shutdown signal arrives while the accounts are
  processed, how the wait ends, and what other programs wrote to the two files before the
  round reads them.\<close>

record tick =
  t_status_edit :: "json dict file_state option"
  t_config_edit :: "account dict file_state option"
  t_api :: "nat \<Rightarrow> string \<Rightarrow> string \<Rightarrow> http_result"
  t_smtp :: "nat \<Rightarrow> smtp_result"
  t_write :: write_result
  t_signal :: bool
  t_wait :: wait_result

definition handle_shutdown :: "state \<Rightarrow> state" where
  "handle_shutdown s = s\<lparr>shutdown_event := True\<rparr>"

definition external_edits :: "tick \<Rightarrow> state \<Rightarrow> state" where
  "external_edits t s =
     s\<lparr>status_file := (case t_status_edit t of None \<Rightarrow> status_file s | Some f \<Rightarrow> f),
       config_file := (case t_config_edit t of None \<Rightarrow> config_file s | Some f \<Rightarrow> f)\<rparr>"

fun process_accounts ::
  "settings \<Rightarrow> tick \<Rightarrow> nat \<Rightarrow> account dict \<Rightarrow> state \<Rightarrow> error + state" where
  "process_accounts c t n [] s = Inr s"
| "process_accounts c t n ((account_name, account_data) # rest) s =
     bindE (process_account c (t_api t n) (t_smtp t n) account_name account_data s)
       (process_accounts c t (Suc n) rest)"

text \<open>The body of the \<^verbatim>\<open>while\<close> loop up to \<^verbatim>\<open>save_json\<close> (lines 331 to 337).\<close>

definition poll_iteration :: "settings \<Rightarrow> tick \<Rightarrow> state \<Rightarrow> error + state" where
  "poll_iteration c t s =
     (let s1 = s\<lparr>previous_status := load_json (status_file s),
                 trace := trace s @ [LoadJson STATUS_FILE]\<rparr>;
          s2 = s1\<lparr>vast_accounts := load_json (config_file s1),
                  trace := trace s1 @ [LoadJson CONFIG_FILE]\<rparr>
      in bindE (process_accounts c t 0 (vast_accounts s2) s2) (\<lambda>s3.
         Inr (s3\<lparr>status_file := save_json (t_write t) (status_file s3) (previous_status s3),
                 trace := trace s3 @ [SaveJson STATUS_FILE (previous_status s3) (t_write t)]\<rparr>)))"

text \<open>The wait at the end of the body (lines 342 to 347).\<close>

definition wait_for_shutdown :: "settings \<Rightarrow> tick \<Rightarrow> state \<Rightarrow> state" where
  "wait_for_shutdown c t s =
     (if shutdown_event s then s\<lparr>trace := trace s @ [WaitFor (CHECK_INTERVAL c) Woken]\<rparr>
      else
        (case t_wait t of
           Woken \<Rightarrow> (handle_shutdown s)\<lparr>trace := trace s @ [WaitFor (CHECK_INTERVAL c) Woken]\<rparr>
         | TimedOut \<Rightarrow> s\<lparr>trace := trace s @ [WaitFor (CHECK_INTERVAL c) TimedOut]\<rparr>
         | TimedOutAndSet \<Rightarrow>
             (handle_shutdown s)\<lparr>trace := trace s @ [WaitFor (CHECK_INTERVAL c) TimedOutAndSet]\<rparr>))"

text \<open>\<^verbatim>\<open>monitor_servers\<close>. The loop has no bound of its own: it runs as long as the
  environment lets it, one \<open>tick\<close> per round, and \<open>Running\<close> is the loop still going when
  the given rounds are used up. \<open>Crashed\<close> is an exception leaving the loop.\<close>

datatype outcome = Stopped state | Crashed error | Running state

fun monitor_servers :: "settings \<Rightarrow> tick list \<Rightarrow> state \<Rightarrow> outcome" where
  "monitor_servers c [] s = (if shutdown_event s then Stopped s else Running s)"
| "monitor_servers c (t # ts) s =
     (if shutdown_event s then Stopped s
      else
        (case poll_iteration c t (external_edits t s) of
           Inl e \<Rightarrow> Crashed e
         | Inr s' \<Rightarrow>
             monitor_servers c ts
               (wait_for_shutdown c t (if t_signal t then handle_shutdown s' else s'))))"

section \<open>Notions the statements use\<close>

text \<open>The fields the comparison reads from the prior entry, each with the value that
  stands in for a missing or false one (lines 239 to 245), in the order of the six tests.
  Two entries differ when one of these fields, so read from the first, is unequal to the
  field of the second.\<close>

definition monitored_fields :: "(string \<times> json) list" where
  "monitored_fields =
     [(''rented'', JBool False), (''rented_gpus'', JInt 0),
      (''listed_gpu_cost'', JFloat 0), (''listed_storage_cost'', JFloat 0),
      (''listed_min_gpu_count'', JFloat 0), (''min_bid_price'', JFloat 0),
      (''num_reports'', JInt 0)]"

definition field_differs :: "json dict \<Rightarrow> json dict \<Rightarrow> string \<times> json \<Rightarrow> bool" where
  "field_differs od nd kd = py_ne (py_or (dget od (fst kd) JNull) (snd kd)) (dget nd (fst kd) JNull)"

definition entry_differs :: "json dict \<Rightarrow> json dict \<Rightarrow> bool" where
  "entry_differs od nd = list_ex (field_differs od nd) monitored_fields"

text \<open>The entry of a snapshot as a dict.\<close>

definition entry_fields :: "obs \<Rightarrow> json dict" where
  "entry_fields ob = (case snapshot_entry ob of JObj nd \<Rightarrow> nd | _ \<Rightarrow> [])"

text \<open>The three requests \<^verbatim>\<open>process_account\<close> makes for an account.\<close>

definition three_requests :: "settings \<Rightarrow> string \<Rightarrow> event list" where
  "three_requests c key =
     [HttpGet (VAST_URL c @ ''/users/current'') key,
      HttpGet (VAST_URL c @ ''/user/earnings'') key,
      HttpGet (VAST_URL c @ ''/machines'') key]"

text \<open>The requests of one round, account by account.\<close>

definition all_requests :: "settings \<Rightarrow> account dict \<Rightarrow> event list" where
  "all_requests c accounts = concat (map (\<lambda>(name, a). three_requests c (api_key a)) accounts)"


text \<open>The state after the two loads that open a round, and after the \<^verbatim>\<open>save_json\<close> that
  closes it.\<close>

definition loaded :: "state \<Rightarrow> state" where
  "loaded s =
     s\<lparr>previous_status := load_json (status_file s),
       vast_accounts := load_json (config_file s),
       trace := trace s @ [LoadJson STATUS_FILE, LoadJson CONFIG_FILE]\<rparr>"

definition saved :: "write_result \<Rightarrow> state \<Rightarrow> state" where
  "saved w s =
     s\<lparr>status_file := save_json w (status_file s) (previous_status s),
       trace := trace s @ [SaveJson STATUS_FILE (previous_status s) w]\<rparr>"

text \<open>How the pair of \<^verbatim>\<open>changes_detected\<close> and \<^verbatim>\<open>changes_lines\<close> moves when a condition
  \<open>c\<close> is tested: the flag is raised and lines are appended exactly when \<open>c\<close> holds.\<close>

definition extends :: "bool \<Rightarrow> bool \<times> change_line list \<Rightarrow> bool \<times> change_line list \<Rightarrow> bool" where
  "extends c acc acc' =
     (fst acc' = (fst acc \<or> c) \<and> (\<exists>new. snd acc' = snd acc @ new \<and> (new \<noteq> []) = c))"

text \<open>The machines of a list that the loop monitors, each with its identifier and its
  observation, in the order of the list; the same for the machine list an account
  receives, and for the accounts of a round one after the other.\<close>

definition monitored_obs :: "bool \<Rightarrow> int list \<Rightarrow> json \<Rightarrow> (string \<times> obs) option" where
  "monitored_obs all_server server_ids server =
     (case server of
        JObj sv \<Rightarrow>
          (case py_str (dget sv ''id'' JNull) of
             Inr server_id \<Rightarrow>
               (case skip_server all_server server_ids server_id of
                  Inr skip \<Rightarrow>
                    if skip then None
                    else (case observe_server sv server_id of
                            Inr ob \<Rightarrow> Some (server_id, ob)
                          | Inl _ \<Rightarrow> None)
                | Inl _ \<Rightarrow> None)
           | Inl _ \<Rightarrow> None)
      | _ \<Rightarrow> None)"

definition observations :: "bool \<Rightarrow> int list \<Rightarrow> json list \<Rightarrow> (string \<times> obs) list" where
  "observations all_server server_ids servers =
     List.map_filter (monitored_obs all_server server_ids) servers"

definition account_observations ::
  "settings \<Rightarrow> (string \<Rightarrow> string \<Rightarrow> http_result) \<Rightarrow> account \<Rightarrow> (string \<times> obs) list" where
  "account_observations c api a =
     (case py_get (api_result (api (VAST_URL c @ ''/machines'') (api_key a))) ''machines'' (JArr [])
      of Inr machines \<Rightarrow>
           (case py_iter machines of
              Inr servers \<Rightarrow> observations (- 1 \<in> set (machine_ids a)) (machine_ids a) servers
            | Inl _ \<Rightarrow> [])
       | Inl _ \<Rightarrow> [])"

fun round_observations :: "settings \<Rightarrow> tick \<Rightarrow> nat \<Rightarrow> account dict \<Rightarrow> (string \<times> obs) list" where
  "round_observations c t n [] = []"
| "round_observations c t n ((name, a) # rest) =
     account_observations c (t_api t n) a @ round_observations c t (Suc n) rest"

text \<open>A snapshot overwritten with the entries of a list of observations, one after the
  other.\<close>

definition overwrite :: "json dict \<Rightarrow> (string \<times> obs) list \<Rightarrow> json dict" where
  "overwrite ps xs = foldl (\<lambda>ps (server_id, ob). AList.update server_id (snapshot_entry ob) ps) ps xs"

text \<open>Whether one of a list of observations is of a machine without a prior entry, or
  differs from the prior entry of its machine in a monitored field; each observation is
  compared with the snapshot as the observations before it have left it. (A prior entry
  that is not a dict makes the comparison raise, so it does not occur where an account is
  processed to its end.)\<close>

fun any_change :: "json dict \<Rightarrow> (string \<times> obs) list \<Rightarrow> bool" where
  "any_change ps [] = False"
| "any_change ps ((server_id, ob) # rest) =
     ((case prior_entry ps server_id of
         None \<Rightarrow> True
       | Some old_data \<Rightarrow>
           (case old_data of JObj od \<Rightarrow> entry_differs od (entry_fields ob) | _ \<Rightarrow> False))
      \<or> any_change (AList.update server_id (snapshot_entry ob) ps) rest)"





section \<open>Example environments\<close>

text \<open>Concrete settings, accounts, answers and rounds, on which the theorems below are
  instantiated.\<close>

definition ex_settings :: settings where
  "ex_settings =
     \<lparr>CHECK_INTERVAL = 300, VAST_URL = ''https://console.vast.ai/api/v0'',
      EMAIL_TO = Some ''ops@example.org''\<rparr>"

definition ex_account :: account where
  "ex_account = \<lparr>api_key = ''secret'', notify = None, machine_ids = [- 1]\<rparr>"

text \<open>The bot as \<^verbatim>\<open>__init__\<close> leaves it, with one configured account and no snapshot
  file yet.\<close>

definition ex_bot :: state where
  "ex_bot =
     \<lparr>previous_status = [], vast_accounts = [], shutdown_event = False,
      status_file = Missing, config_file = Content [(''main'', ex_account)], trace = []\<rparr>"

definition api_down :: "string \<Rightarrow> string \<Rightarrow> http_result" where
  "api_down url key = ClientError"

text \<open>A round in which every request fails, the file is written and the wait times
  out.\<close>

definition tick_down :: tick where
  "tick_down =
     \<lparr>t_status_edit = None, t_config_edit = None, t_api = (\<lambda>n. api_down),
      t_smtp = (\<lambda>n. Delivered), t_write = Written, t_signal = False, t_wait = TimedOut\<rparr>"

text \<open>A listed machine with one GPU rented, and an API that answers the three requests.\<close>

definition ex_machine :: json where
  "ex_machine =
     JObj [(''id'', JInt 7), (''listed'', JBool True), (''current_rentals_running'', JInt 1),
           (''current_rentals_resident'', JInt 0), (''num_gpus'', JInt 2),
           (''gpu_occupancy'', JStr ''D x''), (''listed_gpu_cost'', JFloat (1 / 2)),
           (''listed_storage_cost'', JFloat (1 / 10)), (''min_bid_price'', JFloat (1 / 4)),
           (''listed_min_gpu_count'', JInt 1), (''reliability2'', JFloat (99 / 100)),
           (''num_reports'', JInt 0), (''earn_hour'', JFloat (1 / 5)), (''earn_day'', JFloat 4)]"

definition api_up :: "string \<Rightarrow> string \<Rightarrow> http_result" where
  "api_up url key =
     (if url = ''https://console.vast.ai/api/v0/users/current''
        then Response (JObj [(''balance'', JFloat (25 / 2))])
      else if url = ''https://console.vast.ai/api/v0/user/earnings''
        then Response (JObj [(''machine_earnings'', JInt 3)])
      else if url = ''https://console.vast.ai/api/v0/machines''
        then Response (JObj [(''machines'', JArr [ex_machine])])
      else ClientError)"

text \<open>The snapshot entry and the summary line of that machine.\<close>

definition ex_fields :: "json dict" where
  "ex_fields =
     [(''rented'', JBool True), (''rented_gpus'', JInt 1),
      (''listed_gpu_cost'', JFloat (1 / 2)), (''listed_storage_cost'', JFloat (1 / 10)),
      (''min_bid_price'', JFloat (1 / 4)), (''listed_min_gpu_count'', JInt 1),
      (''earn_hour'', JFloat (1 / 5)), (''earn_day'', JFloat 4),
      (''reliability'', JFloat (99 / 100)), (''num_reports'', JInt 0),
      (''gpu_occupancy'', JStr ''D x'')]"

definition ex_entry :: json where
  "ex_entry = JObj ex_fields"

definition ex_line :: server_line where
  "ex_line =
     ServerLine ''7'' True (JInt 1) (JInt 2) (JInt 1)
       (Some (JFloat (1 / 2), JFloat (1 / 4), JFloat (1 / 10))) (JFloat (99 / 100))
       None (Some (JInt 1))"

definition ex_mail :: event where
  "ex_mail =
     SendMail (StatusUpdate ''main'') (Message ''main'' (JFloat (25 / 2)) (JInt 3) [] [ex_line])
       [''ops@example.org''] Delivered"

text \<open>Rounds of the loop: the API answers and the wait times out; the same with a new
  configuration written before the round; the same with the shutdown signal arriving
  during the wait.\<close>

definition tick_up :: tick where
  "tick_up =
     \<lparr>t_status_edit = None, t_config_edit = None, t_api = (\<lambda>n. api_up),
      t_smtp = (\<lambda>n. Delivered), t_write = Written, t_signal = False, t_wait = TimedOut\<rparr>"


definition tick_stop :: tick where
  "tick_stop = tick_up\<lparr>t_wait := Woken\<rparr>"

text \<open>The example bot after one round in which the API answers.\<close>

definition ex_after :: state where
  "ex_after =
     ex_bot\<lparr>previous_status := [(''7'', ex_entry)],
            vast_accounts := [(''main'', ex_account)],
            status_file := Content [(''7'', ex_entry)],
            trace := [LoadJson STATUS_FILE, LoadJson CONFIG_FILE]
              @ three_requests ex_settings ''secret''
              @ [ex_mail, SaveJson STATUS_FILE [(''7'', ex_entry)] Written]\<rparr>"

text \<open>The entry of the example machine when it was free, and its entry with another
  reliability and nothing else changed.\<close>

definition ex_free_fields :: "json dict" where
  "ex_free_fields =
     [(''rented'', JBool False), (''rented_gpus'', JInt 0),
      (''listed_gpu_cost'', JFloat (1 / 2)), (''listed_storage_cost'', JFloat (1 / 10)),
      (''min_bid_price'', JFloat (1 / 4)), (''listed_min_gpu_count'', JInt 1),
      (''earn_hour'', JFloat 0), (''earn_day'', JFloat 4),
      (''reliability'', JFloat (99 / 100)), (''num_reports'', JInt 0),
      (''gpu_occupancy'', JStr ''x x'')]"

definition ex_shaky_fields :: "json dict" where
  "ex_shaky_fields =
     [(''rented'', JBool True), (''rented_gpus'', JInt 1),
      (''listed_gpu_cost'', JFloat (1 / 2)), (''listed_storage_cost'', JFloat (1 / 10)),
      (''min_bid_price'', JFloat (1 / 4)), (''listed_min_gpu_count'', JInt 1),
      (''earn_hour'', JFloat (1 / 5)), (''earn_day'', JFloat 4),
      (''reliability'', JFloat (1 / 2)), (''num_reports'', JInt 0),
      (''gpu_occupancy'', JStr ''D x'')]"

text \<open>The fields of the example machine as a dict, and the loop state after it was
  processed against the entry of the free machine.\<close>

definition ex_machine_fields :: "json dict" where
  "ex_machine_fields = (case ex_machine of JObj sv \<Rightarrow> sv | _ \<Rightarrow> [])"

definition ex_frame_rented :: frame where
  "ex_frame_rented =
     \<lparr>self_previous_status = [(''7'', ex_entry)], changes_detected = True,
      changes_lines = [RentalChange Rocket ''7'' True (JInt 0) (JInt 1) (JInt 2) ''Dx''],
      account_lines = [ex_line]\<rparr>"




section \<open>Basic facts\<close>

lemma bindE_Inl [simp]: "bindE (Inl e) f = Inl e"
  by (simp add: bindE_def)

lemma bindE_Inr [simp]: "bindE (Inr x) f = f x"
  by (simp add: bindE_def)

lemma bindE_eq_Inr: "(bindE m f = Inr y) = (\<exists>x. m = Inr x \<and> f x = Inr y)"
  by (cases m) simp_all

lemma bindE_assoc: "bindE (bindE m f) g = bindE m (\<lambda>x. bindE (f x) g)"
  by (cases m) simp_all

lemma api_result_failed: "(\<forall>body. r \<noteq> Response body) \<Longrightarrow> api_result r = JObj []"
  by (cases r) (simp_all add: api_result_def)

lemma fetch_account_eq:
  "fetch_account c api key s =
     bindE (py_get (api_result (api (VAST_URL c @ ''/users/current'') key)) ''balance'' (JInt 0))
       (\<lambda>balance.
     bindE (py_get (api_result (api (VAST_URL c @ ''/user/earnings'') key))
              ''machine_earnings'' (JInt 0))
       (\<lambda>e.
     bindE (py_get (api_result (api (VAST_URL c @ ''/machines'') key)) ''machines'' (JArr []))
       (\<lambda>machines.
     Inr (balance, py_or e (JFloat 0), machines,
          s\<lparr>trace := trace s @ three_requests c key\<rparr>))))"
  by (simp add: fetch_account_def get_current_user_def get_user_earnings_def
      get_server_status_def call_vast_api_def three_requests_def Let_def bindE_assoc)

lemma fetch_account_Inr:
  assumes "fetch_account c api key s = Inr (b, e, m, s3)"
  shows "s3 = s\<lparr>trace := trace s @ three_requests c key\<rparr>
    \<and> py_get (api_result (api (VAST_URL c @ ''/users/current'') key)) ''balance'' (JInt 0) = Inr b
    \<and> (\<exists>e0. py_get (api_result (api (VAST_URL c @ ''/user/earnings'') key))
               ''machine_earnings'' (JInt 0) = Inr e0 \<and> e = py_or e0 (JFloat 0))
    \<and> py_get (api_result (api (VAST_URL c @ ''/machines'') key)) ''machines'' (JArr []) = Inr m"
  using assms by (auto simp: fetch_account_eq bindE_eq_Inr)

lemma fetch_account_failed:
  assumes "\<forall>url key body. api url key \<noteq> Response body"
  shows "fetch_account c api key s =
    Inr (JInt 0, JFloat 0, JArr [], s\<lparr>trace := trace s @ three_requests c key\<rparr>)"
  using assms by (simp add: fetch_account_eq api_result_failed py_get_def dget_def py_or_def)

lemma process_account_eq:
  "process_account c api smtp name a s =
     bindE (fetch_account c api (api_key a) s) (\<lambda>(b, e, m, s3).
     bindE (py_iter m) (\<lambda>srvs.
     bindE (process_servers (- 1 \<in> set (machine_ids a)) (machine_ids a)
              (initial_frame (previous_status s3)) srvs) (\<lambda>f.
     report_account c smtp name a (previous_status s = []) b e f
       (s3\<lparr>previous_status := self_previous_status f\<rparr>))))"
  unfolding process_account_def Let_def by (rule refl)

lemma process_account_failed:
  assumes "\<forall>url key body. api url key \<noteq> Response body"
  shows "process_account c api smtp name a s =
    Inr (s\<lparr>trace := trace s @ three_requests c (api_key a)\<rparr>)"
  by (simp add: process_account_eq fetch_account_failed [OF assms] py_iter_def
      initial_frame_def report_account_def)

lemma process_accounts_failed:
  assumes "\<forall>n url key body. t_api t n url key \<noteq> Response body"
  shows "process_accounts c t n accounts s =
    Inr (s\<lparr>trace := trace s @ all_requests c accounts\<rparr>)"
proof (induction accounts arbitrary: n s)
  case Nil
  show ?case by (simp add: all_requests_def)
next
  case (Cons p accounts)
  obtain name a where p: "p = (name, a)" by (cases p)
  have "\<forall>url key body. t_api t n url key \<noteq> Response body"
    using assms by blast
  then have "process_account c (t_api t n) (t_smtp t n) name a s =
      Inr (s\<lparr>trace := trace s @ three_requests c (api_key a)\<rparr>)"
    by (rule process_account_failed)
  then show ?case
    by (simp add: p Cons.IH all_requests_def)
qed

lemma poll_iteration_failed:
  assumes "\<forall>n url key body. t_api t n url key \<noteq> Response body"
  shows "poll_iteration c t s =
    Inr (s\<lparr>previous_status := load_json (status_file s),
           vast_accounts := load_json (config_file s),
           status_file := save_json (t_write t) (status_file s) (load_json (status_file s)),
           trace := trace s @ [LoadJson STATUS_FILE, LoadJson CONFIG_FILE]
                    @ all_requests c (load_json (config_file s))
                    @ [SaveJson STATUS_FILE (load_json (status_file s)) (t_write t)]\<rparr>)"
  by (simp add: poll_iteration_def Let_def process_accounts_failed [OF assms])

section \<open>Failed requests\<close>

text \<open>
  Claim C9. \<^verbatim>\<open>call_vast_api\<close> hands no exception to its caller: its result is a value, and
  after a client error, an undecodable body or any other exception of the request that
  value is the empty dict. Then \<^verbatim>\<open>get_server_status\<close> returns the empty list, the account is
  processed with balance 0, earnings 0.0 and no machines, which changes nothing but the
  log of requests, and the round of the poll loop completes: it loads, asks, and saves the
  snapshot it loaded.
\<close>

theorem api_failure_yields_defaults:
  "((\<forall>body. api url key \<noteq> Response body) \<longrightarrow>
      call_vast_api api url key s = (JObj [], s\<lparr>trace := trace s @ [HttpGet url key]\<rparr>))
   \<and> ((\<forall>body. api (VAST_URL c @ ''/machines'') key \<noteq> Response body) \<longrightarrow>
      get_server_status c api key s =
        Inr (JArr [], s\<lparr>trace := trace s @ [HttpGet (VAST_URL c @ ''/machines'') key]\<rparr>))
   \<and> ((\<forall>url key body. api url key \<noteq> Response body) \<longrightarrow>
      fetch_account c api key s =
        Inr (JInt 0, JFloat 0, JArr [], s\<lparr>trace := trace s @ three_requests c key\<rparr>)
      \<and> process_account c api smtp name a s =
        Inr (s\<lparr>trace := trace s @ three_requests c (api_key a)\<rparr>))
   \<and> ((\<forall>n url key body. t_api t n url key \<noteq> Response body) \<longrightarrow>
      poll_iteration c t s =
        Inr (s\<lparr>previous_status := load_json (status_file s),
               vast_accounts := load_json (config_file s),
               status_file := save_json (t_write t) (status_file s) (load_json (status_file s)),
               trace := trace s @ [LoadJson STATUS_FILE, LoadJson CONFIG_FILE]
                        @ all_requests c (load_json (config_file s))
                        @ [SaveJson STATUS_FILE (load_json (status_file s)) (t_write t)]\<rparr>))"
proof (intro conjI impI)
  assume "\<forall>body. api url key \<noteq> Response body"
  then show "call_vast_api api url key s = (JObj [], s\<lparr>trace := trace s @ [HttpGet url key]\<rparr>)"
    by (simp add: call_vast_api_def api_result_failed)
next
  assume "\<forall>body. api (VAST_URL c @ ''/machines'') key \<noteq> Response body"
  then show "get_server_status c api key s =
      Inr (JArr [], s\<lparr>trace := trace s @ [HttpGet (VAST_URL c @ ''/machines'') key]\<rparr>)"
    by (simp add: get_server_status_def call_vast_api_def api_result_failed py_get_def dget_def)
next
  assume a: "\<forall>url key body. api url key \<noteq> Response body"
  show "fetch_account c api key s =
      Inr (JInt 0, JFloat 0, JArr [], s\<lparr>trace := trace s @ three_requests c key\<rparr>)"
    by (rule fetch_account_failed [OF a])
  show "process_account c api smtp name a s =
      Inr (s\<lparr>trace := trace s @ three_requests c (api_key a)\<rparr>)"
    by (rule process_account_failed [OF a])
next
  assume "\<forall>n url key body. t_api t n url key \<noteq> Response body"
  then show "poll_iteration c t s =
        Inr (s\<lparr>previous_status := load_json (status_file s),
               vast_accounts := load_json (config_file s),
               status_file := save_json (t_write t) (status_file s) (load_json (status_file s)),
               trace := trace s @ [LoadJson STATUS_FILE, LoadJson CONFIG_FILE]
                        @ all_requests c (load_json (config_file s))
                        @ [SaveJson STATUS_FILE (load_json (status_file s)) (t_write t)]\<rparr>)"
    by (rule poll_iteration_failed)
qed

text \<open>The same on the example bot, with every request refused.\<close>

theorem api_failure_yields_defaults_witness:
  "call_vast_api api_down ''https://console.vast.ai/api/v0/machines'' ''secret'' ex_bot
     = (JObj [], ex_bot\<lparr>trace := [HttpGet ''https://console.vast.ai/api/v0/machines'' ''secret'']\<rparr>)
   \<and> get_server_status ex_settings api_down ''secret'' ex_bot
     = Inr (JArr [], ex_bot\<lparr>trace := [HttpGet ''https://console.vast.ai/api/v0/machines'' ''secret'']\<rparr>)
   \<and> fetch_account ex_settings api_down ''secret'' ex_bot
     = Inr (JInt 0, JFloat 0, JArr [], ex_bot\<lparr>trace := three_requests ex_settings ''secret''\<rparr>)
   \<and> process_account ex_settings api_down Delivered ''main'' ex_account ex_bot
     = Inr (ex_bot\<lparr>trace := three_requests ex_settings ''secret''\<rparr>)
   \<and> poll_iteration ex_settings tick_down ex_bot
     = Inr (ex_bot\<lparr>vast_accounts := [(''main'', ex_account)], status_file := Content [],
          trace := [LoadJson ''status.json'', LoadJson ''config.json'']
                   @ three_requests ex_settings ''secret''
                   @ [SaveJson ''status.json'' [] Written]\<rparr>)"
proof -
  have d: "\<forall>url key body. api_down url key \<noteq> Response body"
    by (simp add: api_down_def)
  have t: "\<forall>n url key body. t_api tick_down n url key \<noteq> Response body"
    by (simp add: tick_down_def api_down_def)
  show ?thesis
    using api_failure_yields_defaults [where api = api_down
        and url = "''https://console.vast.ai/api/v0/machines''" and key = "''secret''"
        and s = ex_bot and c = ex_settings and smtp = Delivered and name = "''main''"
        and a = ex_account and t = tick_down]
      d t
    by (simp add: ex_bot_def ex_settings_def ex_account_def tick_down_def load_json_def
        save_json_def all_requests_def STATUS_FILE_def CONFIG_FILE_def)
qed





section \<open>Evaluation on the examples\<close>

lemmas py_defs = py_or_def py_ne_def py_gt_def dget_def py_get_def py_iter_def py_count_def
  py_replace_spaces_def fmt_f_def fmt_f_times_100_def float_overflow_def py_str_def
  str_of_int_def str_of_nat.simps digit_char_def py_int_def strip_def is_space_def is_ascii_def
  is_digit_def digit_val_def dec_val_def

lemmas bot_defs = observe_server_def snapshot_entry_def note_change_def diff_server_def
  prior_entry_def skip_server_def compare_prior_def process_server_def initial_frame_def notify_emails_def final_lines_def
  report_account_def send_email_def default_recipients_def choose_subject_def
  api_result_def call_vast_api_def get_server_status_def get_current_user_def
  get_user_earnings_def fetch_account_def process_account_def

lemmas ex_defs = ex_settings_def ex_account_def ex_bot_def api_up_def api_down_def
  ex_machine_def ex_entry_def ex_fields_def ex_line_def ex_mail_def three_requests_def


section \<open>What processing an account keeps and what a round does\<close>

lemma send_email_cases:
  "send_email c smtp subj msg (Some r) s =
     (if r = [] then s else s\<lparr>trace := trace s @ [SendMail subj msg r smtp]\<rparr>)"
  by (simp add: send_email_def)

lemma report_account_Inr:
  assumes "report_account c smtp name a fr b e f s = Inr s'"
  shows "s' = s \<or> (\<exists>subj. s' = s\<lparr>trace := trace s @
           [SendMail subj (Message name b e (final_lines f) (account_lines f))
              (notify_emails c a) smtp]\<rparr>)"
  using assms
  by (auto simp: report_account_def bindE_eq_Inr send_email_cases split: if_splits)

lemma process_account_Inr:
  assumes "process_account c api smtp name a s = Inr s'"
  shows "\<exists>b e m srvs f.
      fetch_account c api (api_key a) s
        = Inr (b, e, m, s\<lparr>trace := trace s @ three_requests c (api_key a)\<rparr>)
    \<and> py_iter m = Inr srvs
    \<and> process_servers (- 1 \<in> set (machine_ids a)) (machine_ids a)
         (initial_frame (previous_status s)) srvs = Inr f
    \<and> report_account c smtp name a (previous_status s = []) b e f
         (s\<lparr>trace := trace s @ three_requests c (api_key a),
            previous_status := self_previous_status f\<rparr>) = Inr s'"
proof -
  from assms obtain b e m s3 srvs f where
    f: "fetch_account c api (api_key a) s = Inr (b, e, m, s3)"
    and i: "py_iter m = Inr srvs"
    and p: "process_servers (- 1 \<in> set (machine_ids a)) (machine_ids a)
         (initial_frame (previous_status s3)) srvs = Inr f"
    and r: "report_account c smtp name a (previous_status s = []) b e f
         (s3\<lparr>previous_status := self_previous_status f\<rparr>) = Inr s'"
    by (auto simp: process_account_eq bindE_eq_Inr)
  have s3: "s3 = s\<lparr>trace := trace s @ three_requests c (api_key a)\<rparr>"
    using fetch_account_Inr [OF f] by simp
  show ?thesis
    using f i p r unfolding s3 by auto
qed

lemma process_account_preserves:
  assumes "process_account c api smtp name a s = Inr s'"
  shows "vast_accounts s' = vast_accounts s \<and> shutdown_event s' = shutdown_event s
    \<and> status_file s' = status_file s \<and> config_file s' = config_file s
    \<and> (\<exists>evs. trace s' = trace s @ evs)"
proof -
  from process_account_Inr [OF assms] obtain b e f where
    r: "report_account c smtp name a (previous_status s = []) b e f
         (s\<lparr>trace := trace s @ three_requests c (api_key a),
            previous_status := self_previous_status f\<rparr>) = Inr s'"
    by blast
  from report_account_Inr [OF r] show ?thesis by auto
qed

lemma process_accounts_preserves:
  "process_accounts c t n accounts s = Inr s' \<Longrightarrow>
     vast_accounts s' = vast_accounts s \<and> shutdown_event s' = shutdown_event s
     \<and> status_file s' = status_file s \<and> config_file s' = config_file s
     \<and> (\<exists>evs. trace s' = trace s @ evs)"
proof (induction accounts arbitrary: n s)
  case Nil
  then show ?case by simp
next
  case (Cons p accounts)
  obtain name a where p: "p = (name, a)" by (cases p)
  from Cons.prems obtain s1 where
    1: "process_account c (t_api t n) (t_smtp t n) name a s = Inr s1"
    and 2: "process_accounts c t (Suc n) accounts s1 = Inr s'"
    by (auto simp: p bindE_eq_Inr)
  from process_account_preserves [OF 1] Cons.IH [OF 2] show ?case
    by auto
qed

lemma poll_iteration_eq:
  "poll_iteration c t s =
     bindE (process_accounts c t 0 (load_json (config_file s)) (loaded s))
       (\<lambda>s3. Inr (saved (t_write t) s3))"
  by (simp add: poll_iteration_def loaded_def saved_def Let_def)

lemma poll_iteration_Inr:
  assumes "poll_iteration c t s = Inr s'"
  shows "\<exists>s3 evs. process_accounts c t 0 (load_json (config_file s)) (loaded s) = Inr s3
    \<and> s' = saved (t_write t) s3
    \<and> trace s3 = trace s @ [LoadJson STATUS_FILE, LoadJson CONFIG_FILE] @ evs
    \<and> vast_accounts s' = load_json (config_file s)
    \<and> shutdown_event s' = shutdown_event s
    \<and> config_file s' = config_file s"
proof -
  from assms obtain s3 where
    1: "process_accounts c t 0 (load_json (config_file s)) (loaded s) = Inr s3"
    and 2: "s' = saved (t_write t) s3"
    by (auto simp: poll_iteration_eq bindE_eq_Inr)
  from process_accounts_preserves [OF 1] show ?thesis
    using 1 2 by (auto simp: loaded_def saved_def)
qed

lemma ex_poll_iteration:
  assumes "t_api t = (\<lambda>n. api_up)" and "t_smtp t = (\<lambda>n. Delivered)" and "t_write t = Written"
  shows "poll_iteration ex_settings t ex_bot = Inr ex_after"
proof -
  have l: "loaded ex_bot = ex_bot\<lparr>vast_accounts := [(''main'', ex_account)],
      trace := [LoadJson STATUS_FILE, LoadJson CONFIG_FILE]\<rparr>"
    by (simp add: loaded_def ex_bot_def load_json_def)
  have p: "process_account ex_settings api_up Delivered ''main'' ex_account
      (ex_bot\<lparr>vast_accounts := [(''main'', ex_account)],
         trace := [LoadJson STATUS_FILE, LoadJson CONFIG_FILE]\<rparr>) =
     Inr (ex_bot\<lparr>previous_status := [(''7'', ex_entry)],
            vast_accounts := [(''main'', ex_account)],
            trace := [LoadJson STATUS_FILE, LoadJson CONFIG_FILE]
              @ three_requests ex_settings ''secret'' @ [ex_mail]\<rparr>)"
    by (simp add: py_defs bot_defs ex_defs Let_def)
  have c: "load_json (config_file ex_bot) = [(''main'', ex_account)]"
    by (simp add: ex_bot_def load_json_def)
  show ?thesis
    by (simp add: poll_iteration_eq l c assms p)
      (simp add: saved_def save_json_def ex_bot_def ex_after_def)
qed


lemma wait_for_shutdown_trace:
  "\<exists>r. trace (wait_for_shutdown c t s) = trace s @ [WaitFor (CHECK_INTERVAL c) r]"
  by (cases "t_wait t") (simp_all add: wait_for_shutdown_def handle_shutdown_def)

lemma wait_for_shutdown_event:
  "shutdown_event (wait_for_shutdown c t s) = (shutdown_event s \<or> t_wait t \<noteq> TimedOut)"
  by (cases "t_wait t") (simp_all add: wait_for_shutdown_def handle_shutdown_def)

lemma monitor_servers_stopped: "shutdown_event s \<Longrightarrow> monitor_servers c ts s = Stopped s"
  by (cases ts) simp_all

section \<open>The rounds of the poll loop\<close>




text \<open>
  Claim C6. Once the shutdown event is set the loop starts no further round: it stops in
  the state it is in. After a round, the loop waits on the event with the configured
  interval \<^verbatim>\<open>CHECK_INTERVAL\<close> as timeout, whatever happens next. If the signal has arrived
  during the round or arrives during the wait, the loop stops after that wait, whatever
  rounds the environment would still allow; only when the wait times out with no signal
  does the next round start.
\<close>

theorem poll_loop_waits_and_stops:
  "(shutdown_event s \<longrightarrow> monitor_servers c ts s = Stopped s)
   \<and> (\<not> shutdown_event s \<and> poll_iteration c t (external_edits t s) = Inr s' \<longrightarrow>
        (\<exists>r. trace (wait_for_shutdown c t (if t_signal t then handle_shutdown s' else s'))
               = trace s' @ [WaitFor (CHECK_INTERVAL c) r])
      \<and> (t_signal t \<or> t_wait t \<noteq> TimedOut \<longrightarrow>
           monitor_servers c (t # ts) s
             = Stopped (wait_for_shutdown c t (if t_signal t then handle_shutdown s' else s')))
      \<and> (\<not> t_signal t \<and> t_wait t = TimedOut \<longrightarrow>
           monitor_servers c (t # ts) s
             = monitor_servers c ts (s'\<lparr>trace := trace s' @ [WaitFor (CHECK_INTERVAL c) TimedOut]\<rparr>)))"
proof (intro conjI impI)
  assume "shutdown_event s"
  then show "monitor_servers c ts s = Stopped s"
    by (rule monitor_servers_stopped)
next
  assume a: "\<not> shutdown_event s \<and> poll_iteration c t (external_edits t s) = Inr s'"
  let ?w = "wait_for_shutdown c t (if t_signal t then handle_shutdown s' else s')"
  have n: "\<not> shutdown_event s'"
    using a poll_iteration_Inr [of c t "external_edits t s" s']
    by (auto simp: external_edits_def)
  have m: "monitor_servers c (t # ts) s = monitor_servers c ts ?w"
    using a by simp
  show "\<exists>r. trace ?w = trace s' @ [WaitFor (CHECK_INTERVAL c) r]"
    using wait_for_shutdown_trace [of c t "if t_signal t then handle_shutdown s' else s'"]
    by (simp add: handle_shutdown_def split: if_splits)
  {
    assume "t_signal t \<or> t_wait t \<noteq> TimedOut"
    then have "shutdown_event ?w"
      by (auto simp: wait_for_shutdown_event handle_shutdown_def)
    then show "monitor_servers c (t # ts) s = Stopped ?w"
      unfolding m by (rule monitor_servers_stopped)
  }
  {
    assume "\<not> t_signal t \<and> t_wait t = TimedOut"
    then have "?w = s'\<lparr>trace := trace s' @ [WaitFor (CHECK_INTERVAL c) TimedOut]\<rparr>"
      using n by (simp add: wait_for_shutdown_def)
    then show "monitor_servers c (t # ts) s
             = monitor_servers c ts (s'\<lparr>trace := trace s' @ [WaitFor (CHECK_INTERVAL c) TimedOut]\<rparr>)"
      unfolding m by simp
  }
qed


text \<open>On the example: a bot whose event is set does nothing; a signal during the first wait
  ends the loop although a second round is on offer; after a timeout the second round
  starts from the state the wait left.\<close>

theorem poll_loop_waits_and_stops_witness:
  "monitor_servers ex_settings [tick_up] (handle_shutdown ex_bot) = Stopped (handle_shutdown ex_bot)
   \<and> trace (wait_for_shutdown ex_settings tick_stop ex_after)
       = trace ex_after @ [WaitFor 300 Woken]
   \<and> monitor_servers ex_settings [tick_stop, tick_up] ex_bot
       = Stopped (wait_for_shutdown ex_settings tick_stop ex_after)
   \<and> monitor_servers ex_settings [tick_up, tick_stop] ex_bot
       = monitor_servers ex_settings [tick_stop]
           (ex_after\<lparr>trace := trace ex_after @ [WaitFor 300 TimedOut]\<rparr>)"
proof -
  have s: "shutdown_event (handle_shutdown ex_bot)" and n: "\<not> shutdown_event ex_bot"
    by (simp_all add: handle_shutdown_def ex_bot_def)
  have e: "external_edits tick_stop ex_bot = ex_bot" "external_edits tick_up ex_bot = ex_bot"
    by (simp_all add: external_edits_def tick_stop_def tick_up_def ex_bot_def)
  have p: "poll_iteration ex_settings tick_stop ex_bot = Inr ex_after"
    "poll_iteration ex_settings tick_up ex_bot = Inr ex_after"
    by (rule ex_poll_iteration; simp add: tick_stop_def tick_up_def)+
  have w: "\<not> t_signal tick_stop" "t_wait tick_stop = Woken"
    "\<not> t_signal tick_up" "t_wait tick_up = TimedOut"
    by (simp_all add: tick_stop_def tick_up_def)
  have i: "CHECK_INTERVAL ex_settings = 300"
    by (simp add: ex_settings_def)
  have a: "\<not> shutdown_event ex_after"
    by (simp add: ex_after_def ex_bot_def)
  show ?thesis
    using poll_loop_waits_and_stops [where s = "handle_shutdown ex_bot" and c = ex_settings
        and ts = "[tick_up]"]
      poll_loop_waits_and_stops [where s = ex_bot and c = ex_settings and t = tick_stop
        and ts = "[tick_up]" and s' = ex_after]
      poll_loop_waits_and_stops [where s = ex_bot and c = ex_settings and t = tick_up
        and ts = "[tick_stop]" and s' = ex_after]
      s n e p w i a
    by (simp add: wait_for_shutdown_def handle_shutdown_def)
qed

section \<open>One machine against its prior entry\<close>

lemma extends_note: "extends True acc (note_change l acc)"
  by (simp add: extends_def note_change_def)

lemma extends_same: "extends False acc acc"
  by (simp add: extends_def)

lemma extends_trans: "extends c1 a b \<Longrightarrow> extends c2 b d \<Longrightarrow> extends (c1 \<or> c2) a d"
  by (auto simp: extends_def)

lemma extends_if: "extends c acc (if c then note_change l acc else acc)"
  by (simp add: extends_note extends_same)

lemma entry_differs_snapshot:
  "entry_differs od (entry_fields ob) =
     (py_ne (py_or (dget od ''rented'' JNull) (JBool False)) (JBool (rented ob))
      \<or> py_ne (py_or (dget od ''rented_gpus'' JNull) (JInt 0)) (rented_gpus ob)
      \<or> py_ne (py_or (dget od ''listed_gpu_cost'' JNull) (JFloat 0)) (listed_gpu_cost ob)
      \<or> py_ne (py_or (dget od ''listed_storage_cost'' JNull) (JFloat 0)) (listed_storage_cost ob)
      \<or> py_ne (py_or (dget od ''listed_min_gpu_count'' JNull) (JFloat 0)) (listed_min_gpu_count ob)
      \<or> py_ne (py_or (dget od ''min_bid_price'' JNull) (JFloat 0)) (min_bid_price ob)
      \<or> py_ne (py_or (dget od ''num_reports'' JNull) (JInt 0)) (num_reports ob))"
  by (simp add: entry_differs_def monitored_fields_def field_differs_def entry_fields_def
      snapshot_entry_def dget_def)

lemma diff_server_extends:
  assumes "diff_server (JObj od) sid ob acc = Inr acc'"
  shows "extends (entry_differs od (entry_fields ob)) acc acc'"
proof -
  let ?c1 = "py_ne (py_or (dget od ''rented'' JNull) (JBool False)) (JBool (rented ob))
      \<or> py_ne (py_or (dget od ''rented_gpus'' JNull) (JInt 0)) (rented_gpus ob)"
  let ?c2 = "py_ne (py_or (dget od ''listed_gpu_cost'' JNull) (JFloat 0)) (listed_gpu_cost ob)"
  let ?c3 = "py_ne (py_or (dget od ''listed_storage_cost'' JNull) (JFloat 0)) (listed_storage_cost ob)"
  let ?c4 = "py_ne (py_or (dget od ''listed_min_gpu_count'' JNull) (JFloat 0)) (listed_min_gpu_count ob)"
  let ?c5 = "py_ne (py_or (dget od ''min_bid_price'' JNull) (JFloat 0)) (min_bid_price ob)"
  let ?c6 = "py_ne (py_or (dget od ''num_reports'' JNull) (JInt 0)) (num_reports ob)"
  from assms obtain acc1 acc2 acc3 where
    1: "(if ?c1 then
           bindE (py_lt (py_or (dget od ''rented_gpus'' JNull) (JInt 0)) (rented_gpus ob)) (\<lambda>more.
           bindE (py_replace_spaces (gpu_occupancy ob)) (\<lambda>occ.
           Inr (note_change
                  (RentalChange (if more then Rocket else Landing) sid (rented ob)
                     (py_or (dget od ''rented_gpus'' JNull) (JInt 0)) (rented_gpus ob)
                     (num_gpus ob) occ) acc)))
         else Inr acc) = Inr acc1"
    and 2: "(if ?c2 then
           bindE (fmt_f (py_or (dget od ''listed_gpu_cost'' JNull) (JFloat 0))) (\<lambda>_.
           bindE (fmt_f (listed_gpu_cost ob)) (\<lambda>_.
           Inr (note_change
                  (GpuPriceChange sid (py_or (dget od ''listed_gpu_cost'' JNull) (JFloat 0))
                     (listed_gpu_cost ob)) acc1)))
         else Inr acc1) = Inr acc2"
    and 3: "(if ?c3 then
           bindE (fmt_f (py_or (dget od ''listed_storage_cost'' JNull) (JFloat 0))) (\<lambda>_.
           bindE (fmt_f (listed_storage_cost ob)) (\<lambda>_.
           Inr (note_change
                  (StoragePriceChange sid
                     (py_or (dget od ''listed_storage_cost'' JNull) (JFloat 0))
                     (listed_storage_cost ob)) acc2)))
         else Inr acc2) = Inr acc3"
    and 4: "acc' =
         (if ?c6 then
            note_change (NumReportsChange sid (py_or (dget od ''num_reports'' JNull) (JInt 0))
              (num_reports ob))
              (if ?c5 then
                 note_change (MinBidChange sid (py_or (dget od ''min_bid_price'' JNull) (JFloat 0))
                   (min_bid_price ob))
                   (if ?c4 then
                      note_change
                        (MinGpuChange sid
                           (py_or (dget od ''listed_min_gpu_count'' JNull) (JFloat 0))
                           (listed_min_gpu_count ob)) acc3
                    else acc3)
               else (if ?c4 then
                      note_change
                        (MinGpuChange sid
                           (py_or (dget od ''listed_min_gpu_count'' JNull) (JFloat 0))
                           (listed_min_gpu_count ob)) acc3
                    else acc3))
          else (if ?c5 then
                 note_change (MinBidChange sid (py_or (dget od ''min_bid_price'' JNull) (JFloat 0))
                   (min_bid_price ob))
                   (if ?c4 then
                      note_change
                        (MinGpuChange sid
                           (py_or (dget od ''listed_min_gpu_count'' JNull) (JFloat 0))
                           (listed_min_gpu_count ob)) acc3
                    else acc3)
               else (if ?c4 then
                      note_change
                        (MinGpuChange sid
                           (py_or (dget od ''listed_min_gpu_count'' JNull) (JFloat 0))
                           (listed_min_gpu_count ob)) acc3
                    else acc3)))"
    unfolding diff_server_def Let_def json.case bindE_eq_Inr
    by auto
  have e1: "extends ?c1 acc acc1"
    using 1 by (cases ?c1) (auto simp: bindE_eq_Inr extends_note extends_same)
  have e2: "extends ?c2 acc1 acc2"
    using 2 by (cases ?c2) (auto simp: bindE_eq_Inr extends_note extends_same)
  have e3: "extends ?c3 acc2 acc3"
    using 3 by (cases ?c3) (auto simp: bindE_eq_Inr extends_note extends_same)
  have e4: "extends (?c4 \<or> ?c5 \<or> ?c6) acc3 acc'"
    unfolding 4
    by (cases ?c4; cases ?c5; cases ?c6)
      (simp_all add: extends_def note_change_def)
  from extends_trans [OF extends_trans [OF extends_trans [OF e1 e2] e3] e4]
  have "extends ((?c1 \<or> ?c2) \<or> ?c3 \<or> ?c4 \<or> ?c5 \<or> ?c6) acc acc'"
    by (simp add: disj_ac)
  moreover have "entry_differs od (entry_fields ob) = ((?c1 \<or> ?c2) \<or> ?c3 \<or> ?c4 \<or> ?c5 \<or> ?c6)"
    unfolding entry_differs_snapshot by blast
  ultimately show ?thesis by simp
qed

lemma process_server_Inr:
  assumes "process_server all ids f (JObj sv) = Inr f'"
  shows "\<exists>sid skip. py_str (dget sv ''id'' JNull) = Inr sid
    \<and> skip_server all ids sid = Inr skip
    \<and> (if skip then f' = f
        else \<exists>ob cd cl. observe_server sv sid = Inr ob
          \<and> compare_prior (self_previous_status f) sid ob (changes_detected f, changes_lines f)
              = Inr (cd, cl)
          \<and> f' = \<lparr>self_previous_status =
                     AList.update sid (snapshot_entry ob) (self_previous_status f),
                   changes_detected = cd, changes_lines = cl,
                   account_lines = account_lines f @ [server_line ob]\<rparr>)"
proof -
  from assms obtain sid skip where
    i: "py_str (dget sv ''id'' JNull) = Inr sid"
    and k: "skip_server all ids sid = Inr skip"
    and r: "(if skip then Inr f
       else bindE (observe_server sv sid) (\<lambda>ob.
            bindE (compare_prior (self_previous_status f) sid ob
                     (changes_detected f, changes_lines f)) (\<lambda>acc.
            Inr \<lparr>self_previous_status =
                   AList.update sid (snapshot_entry ob) (self_previous_status f),
                 changes_detected = fst acc, changes_lines = snd acc,
                 account_lines = account_lines f @ [server_line ob]\<rparr>))) = Inr f'"
    unfolding process_server_def json.case bindE_eq_Inr by blast
  show ?thesis
  proof (cases skip)
    case True
    with i k r show ?thesis by auto
  next
    case False
    with r obtain ob cd cl where
      "observe_server sv sid = Inr ob"
      "compare_prior (self_previous_status f) sid ob (changes_detected f, changes_lines f)
         = Inr (cd, cl)"
      "f' = \<lparr>self_previous_status =
                   AList.update sid (snapshot_entry ob) (self_previous_status f),
                 changes_detected = cd, changes_lines = cl,
                 account_lines = account_lines f @ [server_line ob]\<rparr>"
      by (simp add: bindE_eq_Inr) blast
    with i k False show ?thesis by auto
  qed
qed

lemma process_server_not_dict:
  "process_server all ids f server = Inr f' \<Longrightarrow> \<exists>sv. server = JObj sv"
  by (cases server) (simp_all add: process_server_def)

lemma compare_prior_extends:
  assumes "compare_prior ps sid ob acc = Inr acc'"
    and "prior_entry ps sid = Some old"
  shows "\<exists>od. old = JObj od \<and> extends (entry_differs od (entry_fields ob)) acc acc'"
proof -
  from assms have d: "diff_server old sid ob acc = Inr acc'"
    by (simp add: compare_prior_def)
  then obtain od where o: "old = JObj od"
    by (cases old) (simp_all add: diff_server_def)
  with d diff_server_extends show ?thesis by blast
qed

lemma compare_prior_new:
  assumes "compare_prior ps sid ob acc = Inr acc'"
    and "prior_entry ps sid = None"
  shows "acc' = (True, snd acc)"
  using assms by (simp add: compare_prior_def)

lemma map_of_update_same: "map_of (AList.update k v al) k = Some v"
  by (simp add: update_conv')


text \<open>
  Claim C1, as the code has it. For a machine that is monitored and has a prior entry,
  processing it raises \<^verbatim>\<open>changes_detected\<close> and appends change lines exactly when one
  of seven fields of the prior entry is unequal to the field just observed: \<^verbatim>\<open>rented\<close>,
  \<^verbatim>\<open>rented_gpus\<close>, \<^verbatim>\<open>listed_gpu_cost\<close>, \<^verbatim>\<open>listed_storage_cost\<close>,
  \<^verbatim>\<open>listed_min_gpu_count\<close>, \<^verbatim>\<open>min_bid_price\<close> and \<^verbatim>\<open>num_reports\<close>. These cover rental
  status, pricing and report counts. The reliability is stored in the entry (as are the
  earnings and the occupancy string) but no test reads it.
\<close>

theorem change_detection_monitored_fields:
  assumes "process_server all ids f (JObj sv) = Inr f'"
    and "py_str (dget sv ''id'' JNull) = Inr sid"
    and "skip_server all ids sid = Inr False"
    and "prior_entry (self_previous_status f) sid = Some old"
  shows "\<exists>od ob new.
      old = JObj od
    \<and> observe_server sv sid = Inr ob
    \<and> map_of (self_previous_status f') sid = Some (JObj (entry_fields ob))
    \<and> changes_lines f' = changes_lines f @ new
    \<and> (new \<noteq> []) = entry_differs od (entry_fields ob)
    \<and> changes_detected f' = (changes_detected f \<or> entry_differs od (entry_fields ob))
    \<and> entry_differs od (entry_fields ob) =
        (py_ne (py_or (dget od ''rented'' JNull) (JBool False)) (JBool (rented ob))
         \<or> py_ne (py_or (dget od ''rented_gpus'' JNull) (JInt 0)) (rented_gpus ob)
         \<or> py_ne (py_or (dget od ''listed_gpu_cost'' JNull) (JFloat 0)) (listed_gpu_cost ob)
         \<or> py_ne (py_or (dget od ''listed_storage_cost'' JNull) (JFloat 0))
              (listed_storage_cost ob)
         \<or> py_ne (py_or (dget od ''listed_min_gpu_count'' JNull) (JFloat 0))
              (listed_min_gpu_count ob)
         \<or> py_ne (py_or (dget od ''min_bid_price'' JNull) (JFloat 0)) (min_bid_price ob)
         \<or> py_ne (py_or (dget od ''num_reports'' JNull) (JInt 0)) (num_reports ob))"
proof -
  from process_server_Inr [OF assms(1)] obtain sid' skip where
    i: "py_str (dget sv ''id'' JNull) = Inr sid'"
    and k: "skip_server all ids sid' = Inr skip"
    and r: "if skip then f' = f
        else \<exists>ob cd cl. observe_server sv sid' = Inr ob
          \<and> compare_prior (self_previous_status f) sid' ob (changes_detected f, changes_lines f)
              = Inr (cd, cl)
          \<and> f' = \<lparr>self_previous_status =
                     AList.update sid' (snapshot_entry ob) (self_previous_status f),
                   changes_detected = cd, changes_lines = cl,
                   account_lines = account_lines f @ [server_line ob]\<rparr>"
    by blast
  from i assms(2) have sid: "sid' = sid" by simp
  from k assms(3) have skip: "\<not> skip" unfolding sid by simp
  from r obtain ob cd cl where
    ob: "observe_server sv sid = Inr ob"
    and c: "compare_prior (self_previous_status f) sid ob (changes_detected f, changes_lines f)
              = Inr (cd, cl)"
    and f': "f' = \<lparr>self_previous_status =
                     AList.update sid (snapshot_entry ob) (self_previous_status f),
                   changes_detected = cd, changes_lines = cl,
                   account_lines = account_lines f @ [server_line ob]\<rparr>"
    unfolding sid if_not_P [OF skip] by blast
  from compare_prior_extends [OF c assms(4)] obtain od where
    od: "old = JObj od"
    and e: "extends (entry_differs od (entry_fields ob)) (changes_detected f, changes_lines f)
             (cd, cl)"
    by blast
  have s: "snapshot_entry ob = JObj (entry_fields ob)"
    by (simp add: entry_fields_def snapshot_entry_def)
  from e obtain new where
    n: "cl = changes_lines f @ new" "(new \<noteq> []) = entry_differs od (entry_fields ob)"
      "cd = (changes_detected f \<or> entry_differs od (entry_fields ob))"
    by (auto simp: extends_def)
  have m: "map_of (self_previous_status f') sid = Some (JObj (entry_fields ob))"
    unfolding f' by (simp add: map_of_update_same s)
  have l: "changes_lines f' = changes_lines f @ new"
    unfolding f' using n(1) by simp
  have d: "changes_detected f' = (changes_detected f \<or> entry_differs od (entry_fields ob))"
    unfolding f' using n(3) by simp
  from od ob m l n(2) d entry_differs_snapshot [of od ob] show ?thesis
    by blast
qed

lemma ex_machine_id: "py_str (dget ex_machine_fields ''id'' JNull) = Inr ''7''"
  by (simp add: ex_machine_fields_def ex_machine_def py_defs)

lemma ex_machine_obj: "ex_machine = JObj ex_machine_fields"
  by (simp add: ex_machine_fields_def ex_machine_def)

lemma ex_process_server_rented:
  "process_server True [- 1] (initial_frame [(''7'', JObj ex_free_fields)]) (JObj ex_machine_fields)
     = Inr ex_frame_rented"
  by (simp add: py_defs bot_defs ex_defs ex_machine_fields_def ex_free_fields_def
      ex_frame_rented_def Let_def)

text \<open>On the example: the machine was free and now has one GPU rented.\<close>

theorem change_detection_monitored_fields_witness:
  "\<exists>od ob new.
      JObj ex_free_fields = JObj od
    \<and> observe_server ex_machine_fields ''7'' = Inr ob
    \<and> map_of (self_previous_status ex_frame_rented) ''7'' = Some (JObj (entry_fields ob))
    \<and> changes_lines ex_frame_rented
        = changes_lines (initial_frame [(''7'', JObj ex_free_fields)]) @ new
    \<and> (new \<noteq> []) = entry_differs od (entry_fields ob)
    \<and> changes_detected ex_frame_rented
        = (changes_detected (initial_frame [(''7'', JObj ex_free_fields)])
           \<or> entry_differs od (entry_fields ob))
    \<and> entry_differs od (entry_fields ob) =
        (py_ne (py_or (dget od ''rented'' JNull) (JBool False)) (JBool (rented ob))
         \<or> py_ne (py_or (dget od ''rented_gpus'' JNull) (JInt 0)) (rented_gpus ob)
         \<or> py_ne (py_or (dget od ''listed_gpu_cost'' JNull) (JFloat 0)) (listed_gpu_cost ob)
         \<or> py_ne (py_or (dget od ''listed_storage_cost'' JNull) (JFloat 0))
              (listed_storage_cost ob)
         \<or> py_ne (py_or (dget od ''listed_min_gpu_count'' JNull) (JFloat 0))
              (listed_min_gpu_count ob)
         \<or> py_ne (py_or (dget od ''min_bid_price'' JNull) (JFloat 0)) (min_bid_price ob)
         \<or> py_ne (py_or (dget od ''num_reports'' JNull) (JInt 0)) (num_reports ob))"
proof -
  have k: "skip_server True [- 1] ''7'' = Inr False"
    by (simp add: skip_server_def)
  have p: "prior_entry (self_previous_status (initial_frame [(''7'', JObj ex_free_fields)])) ''7''
      = Some (JObj ex_free_fields)"
    by (simp add: prior_entry_def initial_frame_def dget_def)
  show ?thesis
    by (rule change_detection_monitored_fields
        [OF ex_process_server_rented ex_machine_id k p])
qed

text \<open>The claim fails on reliability: the prior entry holds another reliability than the
  one observed, every other field is as observed, and processing the machine raises no
  flag and appends no line.\<close>

theorem reliability_change_counterexample:
  "py_ne (dget ex_shaky_fields ''reliability'' JNull) (dget ex_fields ''reliability'' JNull)
   \<and> process_server True [- 1] (initial_frame [(''7'', JObj ex_shaky_fields)]) ex_machine
       = Inr \<lparr>self_previous_status = [(''7'', JObj ex_fields)], changes_detected = False,
               changes_lines = [], account_lines = [ex_line]\<rparr>"
  by (simp add: py_defs bot_defs ex_defs ex_shaky_fields_def ex_fields_def Let_def)

section \<open>Which machines are monitored\<close>














section \<open>The loop over the machines of an account\<close>

lemma process_server_obs:
  assumes "process_server all ids f server = Inr f'"
  shows "case monitored_obs all ids server of
           None \<Rightarrow> f' = f
         | Some (sid, ob) \<Rightarrow>
             \<exists>cd cl. compare_prior (self_previous_status f) sid ob
                         (changes_detected f, changes_lines f) = Inr (cd, cl)
               \<and> f' = \<lparr>self_previous_status =
                          AList.update sid (snapshot_entry ob) (self_previous_status f),
                        changes_detected = cd, changes_lines = cl,
                        account_lines = account_lines f @ [server_line ob]\<rparr>"
proof -
  from process_server_not_dict [OF assms] obtain sv where sv: "server = JObj sv" by blast
  from process_server_Inr [OF assms [unfolded sv]] obtain sid skip where
    i: "py_str (dget sv ''id'' JNull) = Inr sid"
    and k: "skip_server all ids sid = Inr skip"
    and r: "if skip then f' = f
        else \<exists>ob cd cl. observe_server sv sid = Inr ob
          \<and> compare_prior (self_previous_status f) sid ob (changes_detected f, changes_lines f)
              = Inr (cd, cl)
          \<and> f' = \<lparr>self_previous_status =
                     AList.update sid (snapshot_entry ob) (self_previous_status f),
                   changes_detected = cd, changes_lines = cl,
                   account_lines = account_lines f @ [server_line ob]\<rparr>"
    by blast
  show ?thesis
  proof (cases skip)
    case True
    with i k r show ?thesis by (simp add: monitored_obs_def sv)
  next
    case False
    with r obtain ob cd cl where
      o: "observe_server sv sid = Inr ob"
      and c: "compare_prior (self_previous_status f) sid ob (changes_detected f, changes_lines f)
              = Inr (cd, cl)"
      and f': "f' = \<lparr>self_previous_status =
                     AList.update sid (snapshot_entry ob) (self_previous_status f),
                   changes_detected = cd, changes_lines = cl,
                   account_lines = account_lines f @ [server_line ob]\<rparr>"
      by auto
    have "monitored_obs all ids server = Some (sid, ob)"
      using i k o False by (simp add: monitored_obs_def sv)
    with c f' show ?thesis by simp
  qed
qed

lemma compare_prior_flag:
  assumes "compare_prior ps sid ob (cd, cl) = Inr (cd', cl')"
  shows "cd' = (cd \<or> (case prior_entry ps sid of None \<Rightarrow> True
            | Some old \<Rightarrow> (case old of JObj od \<Rightarrow> entry_differs od (entry_fields ob) | _ \<Rightarrow> False)))"
proof (cases "prior_entry ps sid")
  case None
  with compare_prior_new [OF assms] show ?thesis by simp
next
  case (Some old)
  from compare_prior_extends [OF assms Some] obtain od where
    "old = JObj od" "extends (entry_differs od (entry_fields ob)) (cd, cl) (cd', cl')"
    by blast
  with Some show ?thesis by (simp add: extends_def)
qed

lemma process_servers_obs:
  "process_servers all ids f servers = Inr f' \<Longrightarrow>
     self_previous_status f' = overwrite (self_previous_status f) (observations all ids servers)
     \<and> account_lines f' = account_lines f @ map (\<lambda>(sid, ob). server_line ob) (observations all ids servers)
     \<and> changes_detected f' =
         (changes_detected f \<or> any_change (self_previous_status f) (observations all ids servers))"
proof (induction servers arbitrary: f)
  case Nil
  then show ?case by (simp add: observations_def overwrite_def map_filter_simps)
next
  case (Cons server servers)
  from Cons.prems obtain f1 where
    1: "process_server all ids f server = Inr f1"
    and 2: "process_servers all ids f1 servers = Inr f'"
    by (auto simp: bindE_eq_Inr)
  note ih = Cons.IH [OF 2]
  show ?case
  proof (cases "monitored_obs all ids server")
    case None
    with process_server_obs [OF 1] have "f1 = f" by simp
    with ih None show ?thesis
      by (simp add: observations_def map_filter_simps)
  next
    case (Some p)
    obtain sid ob where p: "p = (sid, ob)" by (cases p)
    from process_server_obs [OF 1] Some p obtain cd cl where
      c: "compare_prior (self_previous_status f) sid ob (changes_detected f, changes_lines f)
            = Inr (cd, cl)"
      and f1: "f1 = \<lparr>self_previous_status =
                     AList.update sid (snapshot_entry ob) (self_previous_status f),
                   changes_detected = cd, changes_lines = cl,
                   account_lines = account_lines f @ [server_line ob]\<rparr>"
      by auto
    have o: "observations all ids (server # servers) = (sid, ob) # observations all ids servers"
      using Some p by (simp add: observations_def map_filter_simps)
    from compare_prior_flag [OF c] ih show ?thesis
      unfolding o f1 by (simp add: overwrite_def disj_ac)
  qed
qed

lemma map_of_overwrite:
  "map_of (overwrite ps xs) k =
     (case map_of (rev xs) k of
        Some ob \<Rightarrow> Some (snapshot_entry ob)
      | None \<Rightarrow> map_of ps k)"
proof (induction xs arbitrary: ps)
  case Nil
  show ?case by (simp add: overwrite_def)
next
  case (Cons x xs)
  obtain sid ob where x: "x = (sid, ob)" by (cases x)
  have "overwrite ps (x # xs) = overwrite (AList.update sid (snapshot_entry ob) ps) xs"
    by (simp add: overwrite_def x)
  then show ?case
    using Cons.IH [of "AList.update sid (snapshot_entry ob) ps"]
    by (auto simp: x update_conv' map_add_def split: option.splits)
qed

lemma overwrite_append: "overwrite ps (xs @ ys) = overwrite (overwrite ps xs) ys"
  by (simp add: overwrite_def)

section \<open>Equality of a value with itself\<close>



lemma py_truthy_num: "num_of a = Some x \<Longrightarrow> py_truthy a = (x \<noteq> 0)"
  by (cases a) (auto split: if_splits)






lemma fmt_f_num: "fmt_f v = Inr w \<Longrightarrow> \<exists>x. num_of v = Some x"
  by (cases v) (auto simp: fmt_f_def split: if_splits)



section \<open>When a summary is mailed\<close>

lemma report_account_eq:
  assumes "report_account c smtp name a fr b e f s = Inr s'"
  shows "s' =
     (if (fr \<or> changes_detected f) \<and> account_lines f \<noteq> [] \<and> notify_emails c a \<noteq> [] then
        s\<lparr>trace := trace s @
          [SendMail (choose_subject name fr (changes_detected f) (final_lines f))
             (Message name b e (final_lines f) (account_lines f)) (notify_emails c a) smtp]\<rparr>
      else s)"
  using assms
  by (auto simp: report_account_def bindE_eq_Inr send_email_cases split: if_splits)

lemma account_observations_eq:
  assumes "fetch_account c api (api_key a) s = Inr (b, e, m, s3)" and "py_iter m = Inr srvs"
  shows "account_observations c api a = observations (- 1 \<in> set (machine_ids a)) (machine_ids a) srvs"
  using fetch_account_Inr [OF assms(1)] assms(2)
  by (simp add: account_observations_def)

lemma process_account_obs:
  assumes "process_account c api smtp name a s = Inr s'"
  shows "\<exists>subj b e lines.
     s' = s\<lparr>previous_status := overwrite (previous_status s) (account_observations c api a),
            trace := trace s @ three_requests c (api_key a) @
              (if (previous_status s = []
                   \<or> any_change (previous_status s) (account_observations c api a))
                  \<and> account_observations c api a \<noteq> [] \<and> notify_emails c a \<noteq> []
               then [SendMail subj
                       (Message name b e lines
                          (map (\<lambda>(sid, ob). server_line ob) (account_observations c api a)))
                       (notify_emails c a) smtp]
               else [])\<rparr>"
proof -
  from process_account_Inr [OF assms] obtain b e m srvs f where
    f: "fetch_account c api (api_key a) s
        = Inr (b, e, m, s\<lparr>trace := trace s @ three_requests c (api_key a)\<rparr>)"
    and i: "py_iter m = Inr srvs"
    and p: "process_servers (- 1 \<in> set (machine_ids a)) (machine_ids a)
         (initial_frame (previous_status s)) srvs = Inr f"
    and r: "report_account c smtp name a (previous_status s = []) b e f
         (s\<lparr>trace := trace s @ three_requests c (api_key a),
            previous_status := self_previous_status f\<rparr>) = Inr s'"
    by blast
  let ?obs = "account_observations c api a"
  have o: "?obs = observations (- 1 \<in> set (machine_ids a)) (machine_ids a) srvs"
    by (rule account_observations_eq [OF f i])
  from process_servers_obs [OF p] have
    ps: "self_previous_status f = overwrite (previous_status s) ?obs"
    and al: "account_lines f = map (\<lambda>(sid, ob). server_line ob) ?obs"
    and cd: "changes_detected f = any_change (previous_status s) ?obs"
    by (simp_all add: o initial_frame_def)
  have ne: "(account_lines f \<noteq> []) = (?obs \<noteq> [])"
    by (simp add: al)
  show ?thesis
    apply (rule exI [of _ "choose_subject name (previous_status s = []) (changes_detected f) (final_lines f)"])
    apply (rule exI [of _ b], rule exI [of _ e], rule exI [of _ "final_lines f"])
    apply (subst report_account_eq [OF r])
    apply (simp add: ps cd ne al)
    done
qed





section \<open>The snapshot after a round\<close>

lemma process_accounts_obs:
  "process_accounts c t n accounts s = Inr s' \<Longrightarrow>
     previous_status s' = overwrite (previous_status s) (round_observations c t n accounts)"
proof (induction accounts arbitrary: n s)
  case Nil
  then show ?case by (simp add: overwrite_def)
next
  case (Cons p accounts)
  obtain name a where p: "p = (name, a)" by (cases p)
  from Cons.prems obtain s1 where
    1: "process_account c (t_api t n) (t_smtp t n) name a s = Inr s1"
    and 2: "process_accounts c t (Suc n) accounts s1 = Inr s'"
    by (auto simp: p bindE_eq_Inr)
  from process_account_obs [OF 1] have
    "previous_status s1 = overwrite (previous_status s) (account_observations c (t_api t n) a)"
    by auto
  with Cons.IH [OF 2] show ?case
    by (simp add: p overwrite_append)
qed

lemma poll_iteration_snapshot:
  assumes "poll_iteration c t s = Inr s'"
  shows "previous_status s' =
      overwrite (load_json (status_file s))
        (round_observations c t 0 (load_json (config_file s)))"
    and "\<exists>evs. trace s' = trace s @ evs @ [SaveJson STATUS_FILE (previous_status s') (t_write t)]"
    and "status_file s' = save_json (t_write t) (status_file s) (previous_status s')"
proof -
  from poll_iteration_Inr [OF assms] obtain s3 evs where
    1: "process_accounts c t 0 (load_json (config_file s)) (loaded s) = Inr s3"
    and 2: "s' = saved (t_write t) s3"
    and 3: "trace s3 = trace s @ [LoadJson STATUS_FILE, LoadJson CONFIG_FILE] @ evs"
    by blast
  from process_accounts_obs [OF 1] 2
  show "previous_status s' =
      overwrite (load_json (status_file s))
        (round_observations c t 0 (load_json (config_file s)))"
    by (simp add: saved_def loaded_def)
  from 2 3 have "trace s' = trace s @ ([LoadJson STATUS_FILE, LoadJson CONFIG_FILE] @ evs)
      @ [SaveJson STATUS_FILE (previous_status s') (t_write t)]"
    by (simp add: saved_def)
  then show "\<exists>evs. trace s' = trace s @ evs @ [SaveJson STATUS_FILE (previous_status s') (t_write t)]"
    by blast
  from process_accounts_preserves [OF 1] 2
  show "status_file s' = save_json (t_write t) (status_file s) (previous_status s')"
    by (simp add: saved_def loaded_def)
qed

text \<open>
  Claim C4. The snapshot is one flat map from machine identifier to entry. A round that
  completes leaves in memory the snapshot it loaded, overwritten with the entry of every
  machine it monitored, in the order in which they were processed: the entry of a machine
  holds the eleven fields of the last observation of that machine in the round, and the
  entry of a machine that was not monitored in the round is as loaded. The last effect of the
  round is \<^verbatim>\<open>save_json\<close> of that whole map to the status file, which then holds it when the
  write succeeds.
\<close>

theorem snapshot_overwritten_and_saved:
  assumes "poll_iteration c t s = Inr s'"
  shows "previous_status s' =
      overwrite (load_json (status_file s))
        (round_observations c t 0 (load_json (config_file s)))
    \<and> (\<forall>sid. map_of (previous_status s') sid =
         (case map_of (rev (round_observations c t 0 (load_json (config_file s)))) sid of
            Some ob \<Rightarrow>
              Some (JObj [(''rented'', JBool (rented ob)),
                          (''rented_gpus'', rented_gpus ob),
                          (''listed_gpu_cost'', listed_gpu_cost ob),
                          (''listed_storage_cost'', listed_storage_cost ob),
                          (''min_bid_price'', min_bid_price ob),
                          (''listed_min_gpu_count'', listed_min_gpu_count ob),
                          (''earn_hour'', earn_hour ob),
                          (''earn_day'', earn_day ob),
                          (''reliability'', reliability ob),
                          (''num_reports'', num_reports ob),
                          (''gpu_occupancy'', gpu_occupancy ob)])
          | None \<Rightarrow> map_of (load_json (status_file s)) sid))
    \<and> (\<exists>evs. trace s' = trace s @ evs @ [SaveJson STATUS_FILE (previous_status s') (t_write t)])
    \<and> status_file s' = save_json (t_write t) (status_file s) (previous_status s')
    \<and> (t_write t = Written \<longrightarrow> status_file s' = Content (previous_status s'))"
proof -
  note p = poll_iteration_snapshot [OF assms]
  have m: "\<forall>sid. map_of (previous_status s') sid =
         (case map_of (rev (round_observations c t 0 (load_json (config_file s)))) sid of
            Some ob \<Rightarrow>
              Some (JObj [(''rented'', JBool (rented ob)),
                          (''rented_gpus'', rented_gpus ob),
                          (''listed_gpu_cost'', listed_gpu_cost ob),
                          (''listed_storage_cost'', listed_storage_cost ob),
                          (''min_bid_price'', min_bid_price ob),
                          (''listed_min_gpu_count'', listed_min_gpu_count ob),
                          (''earn_hour'', earn_hour ob),
                          (''earn_day'', earn_day ob),
                          (''reliability'', reliability ob),
                          (''num_reports'', num_reports ob),
                          (''gpu_occupancy'', gpu_occupancy ob)])
          | None \<Rightarrow> map_of (load_json (status_file s)) sid)"
    unfolding p(1) map_of_overwrite snapshot_entry_def by (rule allI) (rule refl)
  have w: "t_write t = Written \<longrightarrow> status_file s' = Content (previous_status s')"
    using p(3) by (simp add: save_json_def)
  from p(1) m p(2) p(3) w show ?thesis by blast
qed

text \<open>On the example round: the bot starts without a snapshot file, monitors machine 7
  and writes the map that holds its entry.\<close>

theorem snapshot_overwritten_and_saved_witness:
  "previous_status ex_after =
      overwrite (load_json (status_file ex_bot))
        (round_observations ex_settings tick_up 0 (load_json (config_file ex_bot)))
   \<and> (\<exists>evs. trace ex_after
         = trace ex_bot @ evs @ [SaveJson STATUS_FILE (previous_status ex_after) (t_write tick_up)])
   \<and> status_file ex_after = Content [(''7'', ex_entry)]"
proof -
  have p: "poll_iteration ex_settings tick_up ex_bot = Inr ex_after"
    by (rule ex_poll_iteration) (simp_all add: tick_up_def)
  have w: "t_write tick_up = Written"
    by (simp add: tick_up_def)
  have a: "previous_status ex_after = [(''7'', ex_entry)]"
    by (simp add: ex_after_def)
  note t = snapshot_overwritten_and_saved [OF p]
  from t have 1: "previous_status ex_after =
      overwrite (load_json (status_file ex_bot))
        (round_observations ex_settings tick_up 0 (load_json (config_file ex_bot)))"
    by blast
  from t have 2: "\<exists>evs. trace ex_after
         = trace ex_bot @ evs @ [SaveJson STATUS_FILE (previous_status ex_after) (t_write tick_up)]"
    by blast
  from t w have "status_file ex_after = Content (previous_status ex_after)"
    by blast
  with a have 3: "status_file ex_after = Content [(''7'', ex_entry)]"
    by simp
  from 1 2 3 show ?thesis by blast
qed

section \<open>A machine observed again\<close>










section \<open>The same answers in the next round\<close>













section \<open>The snapshot and the outcome of the mail\<close>









section \<open>The three requests of an account\<close>







end
